theory Spec2Isabelle
  imports Main "HOL-Library.Word" "HOL-Library.AList"
begin

section \<open>Cluster objects\<close>

text \<open>
  The two reconcilers of the operator (\<^verbatim>\<open>internal/controller/datamover_controller.go\<close> and
  \<^verbatim>\<open>internal/controller/datamoverpopulator_controller.go\<close>) are embedded as functions on an
  explicit world: the objects held by the cluster, the reconciler's in-process table, the
  clock, and the log of the client calls made so far. Only the fields of the Kubernetes
  objects that the controllers read or write are kept. Durations are in milliseconds.
  Logger and metrics calls do not touch the cluster and are left out, except for the one
  place where a branch exists only to choose a log line.
\<close>

type_synonym nsname = "string \<times> string"
  \<comment> \<open>\<^verbatim>\<open>types.NamespacedName\<close>: namespace, then name\<close>

type_synonym quantity = int

record object_meta =
  Name :: string
  Namespace :: string
  Labels :: "string \<rightharpoonup> string"
  Annotations :: "(string \<rightharpoonup> string) option"
  DeletionTimestamp :: "int option"
  Finalizers :: "string list"

record typed_object_reference =
  APIGroup :: "string option"
  Kind :: string
  RefName :: string

record pvc = object_meta +
  AccessModes :: "string list"
  Limits :: "string \<rightharpoonup> quantity"
  Requests :: "string \<rightharpoonup> quantity"
  StorageClassName :: "string option"
  VolumeMode :: "string option"
  DataSource :: "typed_object_reference option"
  DataSourceRef :: "typed_object_reference option"
  VolumeName :: string
  ClaimPhase :: string

datatype env_var = EnvValue string string | EnvFromSecretKey string string string

record container =
  ContainerName :: string
  Image :: string
  ImagePullPolicy :: string
  Command :: "string list"
  Env :: "env_var list"
  EnvFromSecret :: "string list"
  VolumeMounts :: "(string \<times> string) list"

datatype volume_source = ClaimVolume string | EmptyDirVolume

record job = object_meta +
  OwnerReferences :: "string list"
  BackoffLimit :: "32 word option"
  InitContainers :: "container list"
  Containers :: "container list"
  Volumes :: "(string \<times> volume_source) list"
  RestartPolicy :: string
  Active :: "32 word"
  Succeeded :: "32 word"
  Failed :: "32 word"

record pv = object_meta +
  ClaimRef :: "nsname option"

record secret = object_meta +
  DataKeys :: "string list"
  \<comment> \<open>the keys of \<^verbatim>\<open>secret.Data\<close>, in the order the \<^verbatim>\<open>range\<close> loop meets them\<close>

record datamover = object_meta +
  SourcePVC :: string
  SecretName :: string
  AdditionalEnv :: "env_var list"
  AddTimestampPrefix :: bool
  DeletePvcAfterBackup :: bool
  ImageName :: string
  ImageTag :: string
  ImagePull :: string
  Phase :: string
  RestoredPVCName :: string

record image_spec =
  Repository :: string
  Tag :: string
  PullPolicy :: string

record populator = object_meta +
  PopSecretName :: string
  Path :: string
  PopImage :: "image_spec option"
  PopAdditionalEnv :: "env_var list"

record time =
  Unix :: int
  RFC3339 :: string

record ctrl_result =
  Requeue :: bool
  RequeueAfter :: nat

abbreviation Result0 :: ctrl_result where
  "Result0 \<equiv> \<lparr>Requeue = False, RequeueAfter = 0\<rparr>"

abbreviation Millisecond :: nat where "Millisecond \<equiv> 1"
abbreviation Second :: nat where "Second \<equiv> 1000"
abbreviation Minute :: nat where "Minute \<equiv> 60000"

abbreviation ClaimPending :: string where "ClaimPending \<equiv> ''Pending''"
abbreviation ClaimBound :: string where "ClaimBound \<equiv> ''Bound''"
abbreviation ResourceStorage :: string where "ResourceStorage \<equiv> ''storage''"

section \<open>The resource store client\<close>

text \<open>
  The client is the controllers' only door to the cluster. A call either meets an injected
  fault, or is answered from the stored objects. The fault injector sees the calls made so
  far and the call being made, so it covers stale version tokens, an unavailable store and
  any other error the API can return. Every call is logged with its answer.
\<close>

datatype api_error = NotFound | Conflict | AlreadyExists | Unavailable

datatype error = ApiError api_error | SliceBoundsPanic

datatype kind = KDataMover | KPopulator | KPVC | KJob | KPV | KSecret

datatype obj = OPVC pvc | OJob job | OPV pv

datatype api_call =
    Get kind nsname
  | Create obj
  | Update obj
  | StatusUpdate datamover
  | Delete kind nsname "string option"

datatype event = Call api_call "api_error option" | Sleep nat | LogError string

type_synonym faults = "event list \<Rightarrow> api_call \<Rightarrow> api_error option"

record world =
  datamovers :: "nsname \<rightharpoonup> datamover"
  populators :: "nsname \<rightharpoonup> populator"
  pvcs :: "nsname \<rightharpoonup> pvc"
  jobs :: "nsname \<rightharpoonup> job"
  pvs :: "nsname \<rightharpoonup> pv"
  secrets :: "nsname \<rightharpoonup> secret"
  PhaseStart :: "(string \<times> int) list"
  now :: time
  trace :: "event list"

definition no_faults :: faults where
  "no_faults h c = None"

definition key_of :: "'a object_meta_scheme \<Rightarrow> nsname" where
  "key_of x = (Namespace x, Name x)"

definition record_call :: "api_call \<Rightarrow> api_error option \<Rightarrow> world \<Rightarrow> world" where
  "record_call c r w = w\<lparr>trace := trace w @ [Call c r]\<rparr>"

text \<open>
  The answer to a read: the injected fault if there is one, else \<open>NotFound\<close> for an object
  that is not stored, else the stored object. The answer to a write: the injected fault,
  else the store's own refusal, else success. A refused write leaves the store as it was.
\<close>

definition read_answer :: "faults \<Rightarrow> event list \<Rightarrow> api_call \<Rightarrow> 'a option \<Rightarrow> api_error + 'a" where
  "read_answer flt h c stored =
     (case flt h c of
        Some e \<Rightarrow> Inl e
      | None \<Rightarrow> (case stored of None \<Rightarrow> Inl NotFound | Some x \<Rightarrow> Inr x))"

definition error_of :: "api_error + 'a \<Rightarrow> api_error option" where
  "error_of a = (case a of Inl e \<Rightarrow> Some e | Inr x \<Rightarrow> None)"

definition api_read ::
  "faults \<Rightarrow> kind \<Rightarrow> nsname \<Rightarrow> 'a option \<Rightarrow> world \<Rightarrow> (api_error + 'a) \<times> world" where
  "api_read flt knd k stored w =
     (let a = read_answer flt (trace w) (Get knd k) stored
      in (a, record_call (Get knd k) (error_of a) w))"

definition write_answer ::
  "faults \<Rightarrow> event list \<Rightarrow> api_call \<Rightarrow> api_error option \<Rightarrow> api_error option" where
  "write_answer flt h c refused = (case flt h c of Some e \<Rightarrow> Some e | None \<Rightarrow> refused)"

definition api_write ::
  "faults \<Rightarrow> api_call \<Rightarrow> api_error option \<Rightarrow> world \<Rightarrow> world \<Rightarrow> api_error option \<times> world" where
  "api_write flt c refused w' w =
     (let a = write_answer flt (trace w) c refused
      in (a, record_call c a (if a = None then w' else w)))"

definition absent :: "'a option \<Rightarrow> api_error option" where
  "absent stored = (case stored of None \<Rightarrow> Some NotFound | Some x \<Rightarrow> None)"

definition present :: "'a option \<Rightarrow> api_error option" where
  "present stored = (case stored of None \<Rightarrow> None | Some x \<Rightarrow> Some AlreadyExists)"

definition getDataMover :: "faults \<Rightarrow> nsname \<Rightarrow> world \<Rightarrow> (api_error + datamover) \<times> world" where
  "getDataMover flt k w = api_read flt KDataMover k (datamovers w k) w"

definition getPopulator :: "faults \<Rightarrow> nsname \<Rightarrow> world \<Rightarrow> (api_error + populator) \<times> world" where
  "getPopulator flt k w = api_read flt KPopulator k (populators w k) w"

definition getPVC :: "faults \<Rightarrow> nsname \<Rightarrow> world \<Rightarrow> (api_error + pvc) \<times> world" where
  "getPVC flt k w = api_read flt KPVC k (pvcs w k) w"

definition getJob :: "faults \<Rightarrow> nsname \<Rightarrow> world \<Rightarrow> (api_error + job) \<times> world" where
  "getJob flt k w = api_read flt KJob k (jobs w k) w"

definition getPV :: "faults \<Rightarrow> nsname \<Rightarrow> world \<Rightarrow> (api_error + pv) \<times> world" where
  "getPV flt k w = api_read flt KPV k (pvs w k) w"

definition getSecret :: "faults \<Rightarrow> nsname \<Rightarrow> world \<Rightarrow> (api_error + secret) \<times> world" where
  "getSecret flt k w = api_read flt KSecret k (secrets w k) w"

text \<open>
  What a write that is accepted does to the stored objects. A delete removes an object
  that has no finalizer, and otherwise only stamps it as being deleted, as the API server
  does. A status update replaces the status of the stored request and nothing else.
\<close>

definition storeClaim :: "pvc \<Rightarrow> world \<Rightarrow> world" where
  "storeClaim p w = w\<lparr>pvcs := (pvcs w)(key_of p \<mapsto> p)\<rparr>"

definition storeJob :: "job \<Rightarrow> world \<Rightarrow> world" where
  "storeJob j w = w\<lparr>jobs := (jobs w)(key_of j \<mapsto> j)\<rparr>"

definition storeVolume :: "pv \<Rightarrow> world \<Rightarrow> world" where
  "storeVolume v w = w\<lparr>pvs := (pvs w)(key_of v \<mapsto> v)\<rparr>"

definition storeStatus :: "datamover \<Rightarrow> world \<Rightarrow> world" where
  "storeStatus dm w =
     w\<lparr>datamovers := (datamovers w)(key_of dm :=
         map_option (\<lambda>old. old\<lparr>Phase := Phase dm, RestoredPVCName := RestoredPVCName dm\<rparr>)
           (datamovers w (key_of dm)))\<rparr>"

definition removeClaim :: "nsname \<Rightarrow> world \<Rightarrow> world" where
  "removeClaim k w =
     w\<lparr>pvcs := (pvcs w)(k :=
         (case pvcs w k of
            None \<Rightarrow> None
          | Some old \<Rightarrow>
              if Finalizers old = [] then None
              else Some (if DeletionTimestamp old = None
                         then old\<lparr>DeletionTimestamp := Some (Unix (now w))\<rparr> else old)))\<rparr>"

definition removeJob :: "nsname \<Rightarrow> world \<Rightarrow> world" where
  "removeJob k w =
     w\<lparr>jobs := (jobs w)(k :=
         (case jobs w k of
            None \<Rightarrow> None
          | Some old \<Rightarrow>
              if Finalizers old = [] then None
              else Some (if DeletionTimestamp old = None
                         then old\<lparr>DeletionTimestamp := Some (Unix (now w))\<rparr> else old)))\<rparr>"

definition createPVC :: "faults \<Rightarrow> pvc \<Rightarrow> world \<Rightarrow> api_error option \<times> world" where
  "createPVC flt p w =
     api_write flt (Create (OPVC p)) (present (pvcs w (key_of p))) (storeClaim p w) w"

definition createJob :: "faults \<Rightarrow> job \<Rightarrow> world \<Rightarrow> api_error option \<times> world" where
  "createJob flt j w =
     api_write flt (Create (OJob j)) (present (jobs w (key_of j))) (storeJob j w) w"

definition updatePVC :: "faults \<Rightarrow> pvc \<Rightarrow> world \<Rightarrow> api_error option \<times> world" where
  "updatePVC flt p w =
     api_write flt (Update (OPVC p)) (absent (pvcs w (key_of p))) (storeClaim p w) w"

definition updatePV :: "faults \<Rightarrow> pv \<Rightarrow> world \<Rightarrow> api_error option \<times> world" where
  "updatePV flt v w =
     api_write flt (Update (OPV v)) (absent (pvs w (key_of v))) (storeVolume v w) w"

definition statusUpdate :: "faults \<Rightarrow> datamover \<Rightarrow> world \<Rightarrow> api_error option \<times> world" where
  "statusUpdate flt dm w =
     api_write flt (StatusUpdate dm) (absent (datamovers w (key_of dm))) (storeStatus dm w) w"

definition deletePVC :: "faults \<Rightarrow> pvc \<Rightarrow> world \<Rightarrow> api_error option \<times> world" where
  "deletePVC flt p w =
     api_write flt (Delete KPVC (key_of p) None) (absent (pvcs w (key_of p)))
       (removeClaim (key_of p) w) w"

definition deleteJob :: "faults \<Rightarrow> job \<Rightarrow> string option \<Rightarrow> world \<Rightarrow> api_error option \<times> world" where
  "deleteJob flt j policy w =
     api_write flt (Delete KJob (key_of j) policy) (absent (jobs w (key_of j)))
       (removeJob (key_of j) w) w"

definition sleep :: "nat \<Rightarrow> world \<Rightarrow> world" where
  "sleep d w = w\<lparr>trace := trace w @ [Sleep d]\<rparr>"

definition logError :: "string \<Rightarrow> world \<Rightarrow> world" where
  "logError msg w = w\<lparr>trace := trace w @ [LogError msg]\<rparr>"

section \<open>The DataMover reconciler\<close>

definition PhaseInitial :: string where "PhaseInitial = ''''"
definition PhaseCreatingPVC :: string where "PhaseCreatingPVC = ''CreatingClonedPVC''"
definition PhasePVCReady :: string where "PhasePVCReady = ''ClonedPVCReady''"
definition PhaseCreatingPod :: string where "PhaseCreatingPod = ''CreatingPod''"
definition PhaseCleaningUp :: string where "PhaseCleaningUp = ''CleaningUp''"
definition PhaseCompleted :: string where "PhaseCompleted = ''Completed''"
definition PhaseFailed :: string where "PhaseFailed = ''Failed''"

text \<open>\<^verbatim>\<open>%d\<close> of \<^verbatim>\<open>fmt.Sprintf\<close>: the decimal digits, with a minus sign below zero.\<close>

definition digit :: "nat \<Rightarrow> char" where
  "digit d = ''0123456789'' ! d"

function showNat :: "nat \<Rightarrow> string" where
  "showNat n = (if n < 10 then [digit n] else showNat (n div 10) @ [digit (n mod 10)])"
  by pat_completeness auto
termination
  by (relation "measure id") auto

declare showNat.simps [simp del]

definition showInt :: "int \<Rightarrow> string" where
  "showInt i = (if i < 0 then CHR ''-'' # showNat (nat (- i)) else showNat (nat i))"

definition nsString :: "nsname \<Rightarrow> string" where
  "nsString k = fst k @ ''/'' @ snd k"

text \<open>
  The sweep of the \<^verbatim>\<open>Failed\<close> branch of \<^verbatim>\<open>Reconcile\<close> over the keys of \<^verbatim>\<open>PhaseStart\<close>:
  \<^verbatim>\<open>key[:len(req)]\<close> panics when the key is shorter than the request's name, and the
  entries deleted before that stay deleted.
\<close>

fun sweepPhaseStart ::
  "string \<Rightarrow> string list \<Rightarrow> (string \<times> int) list \<Rightarrow> error option \<times> (string \<times> int) list" where
  "sweepPhaseStart rq [] m = (None, m)"
| "sweepPhaseStart rq (key # keys) m =
     (if length key < length rq then (Some SliceBoundsPanic, m)
      else sweepPhaseStart rq keys (if rq = take (length rq) key then AList.delete key m else m))"

text \<open>The claim built at lines 159 to 179 of \<^verbatim>\<open>createClonedPVC\<close>.\<close>

definition pvcSize :: "pvc \<Rightarrow> quantity" where
  "pvcSize sourcePVC = (case Requests sourcePVC ResourceStorage of None \<Rightarrow> 0 | Some q \<Rightarrow> q)"
  \<comment> \<open>indexing a Go map at a missing key gives the zero value\<close>

definition clonedClaim :: "datamover \<Rightarrow> pvc \<Rightarrow> string \<Rightarrow> pvc" where
  "clonedClaim dm sourcePVC clonedPVCName =
     (\<lparr>Name = clonedPVCName, Namespace = Namespace dm, Labels = Map.empty,
           Annotations = None, DeletionTimestamp = None, Finalizers = [],
           AccessModes = AccessModes sourcePVC,
           Limits = Map.empty,
           Requests = [ResourceStorage \<mapsto> pvcSize sourcePVC],
           StorageClassName = StorageClassName sourcePVC,
           VolumeMode = None,
           DataSource = Some \<lparr>APIGroup = None, Kind = ''PersistentVolumeClaim'',
                               RefName = SourcePVC dm\<rparr>,
           DataSourceRef = None,
           VolumeName = '''', ClaimPhase = ''''\<rparr>)"

text \<open>\<^verbatim>\<open>fmt.Sprintf("%s-cloned-%d", dm.Spec.SourcePVC, time.Now().Unix())\<close>\<close>

definition clonedPVCName :: "datamover \<Rightarrow> world \<Rightarrow> string" where
  "clonedPVCName dm w = SourcePVC dm @ ''-cloned-'' @ showInt (Unix (now w))"

definition createClonedPVC :: "faults \<Rightarrow> datamover \<Rightarrow> world \<Rightarrow> (error + ctrl_result) \<times> world" where
  "createClonedPVC flt dm w =
     (case getPVC flt (Namespace dm, SourcePVC dm) w of
        (Inl err, w1) \<Rightarrow> (Inl (ApiError err), w1)
      | (Inr sourcePVC, w1) \<Rightarrow>
          (case createPVC flt (clonedClaim dm sourcePVC (clonedPVCName dm w)) w1 of
             (Some err, w2) \<Rightarrow> (Inl (ApiError err), w2)
           | (None, w2) \<Rightarrow>
               (case statusUpdate flt
                       (dm\<lparr>Phase := PhaseCreatingPVC, RestoredPVCName := clonedPVCName dm w\<rparr>)
                       w2 of
                  (Some err, w3) \<Rightarrow> (Inl (ApiError err), w3)
                | (None, w3) \<Rightarrow> (Inr \<lparr>Requeue = True, RequeueAfter = 0\<rparr>, w3))))"

definition waitForPVCBound :: "faults \<Rightarrow> datamover \<Rightarrow> world \<Rightarrow> (error + ctrl_result) \<times> world" where
  "waitForPVCBound flt dm w =
     (case getPVC flt (Namespace dm, RestoredPVCName dm) w of
        (Inl err, w1) \<Rightarrow> (Inl (ApiError err), w1)
      | (Inr pvc, w1) \<Rightarrow>
          if ClaimPhase pvc = ClaimBound then
            (case statusUpdate flt (dm\<lparr>Phase := PhasePVCReady\<rparr>) w1 of
               (Some err, w2) \<Rightarrow> (Inl (ApiError err), w2)
             | (None, w2) \<Rightarrow> (Inr \<lparr>Requeue = True, RequeueAfter = 0\<rparr>, w2))
          else (Inr \<lparr>Requeue = False, RequeueAfter = 15 * Second\<rparr>, w1))"

text \<open>
  The job of \<^verbatim>\<open>createVerificationJob\<close>; the security contexts, which are constants, are not
  kept.
\<close>

definition verificationJob :: "datamover \<Rightarrow> job" where
  "verificationJob dm =
     (let jobName = ''verify-'' @ RestoredPVCName dm;
          envVars = [EnvValue ''ADD_TIMESTAMP_PREFIX''
                       (if AddTimestampPrefix dm then ''true'' else ''false'')]
                    @ (if length (AdditionalEnv dm) > 0 then AdditionalEnv dm else []);
          imageName = (if ImageName dm = '''' then ''ghcr.io/qjoly/datamover-rclone''
                       else ImageName dm);
          imageTag = (if ImageTag dm = '''' then ''latest'' else ImageTag dm);
          pullPolicy = (if ImagePull dm = '''' then ''Always'' else ImagePull dm);
          fullImageName = imageName @ '':'' @ imageTag;
          backoffLimit = (2 :: 32 word)
      in \<lparr>Name = jobName, Namespace = Namespace dm, Labels = Map.empty, Annotations = None,
           DeletionTimestamp = None, Finalizers = [],
           OwnerReferences = [],
           BackoffLimit = Some backoffLimit,
           InitContainers = [],
           Containers = [\<lparr>ContainerName = ''rclone'', Image = fullImageName,
                           ImagePullPolicy = pullPolicy, Command = [],
                           Env = envVars, EnvFromSecret = [SecretName dm],
                           VolumeMounts = [(''restored-data'', ''/data/'')]\<rparr>],
           Volumes = [(''restored-data'', ClaimVolume (RestoredPVCName dm))],
           RestartPolicy = ''Never'',
           Active = 0, Succeeded = 0, Failed = 0\<rparr>)"

definition createVerificationJob ::
  "faults \<Rightarrow> datamover \<Rightarrow> world \<Rightarrow> (error + ctrl_result) \<times> world" where
  "createVerificationJob flt dm w =
     (let jobName = ''verify-'' @ RestoredPVCName dm;
          job = verificationJob dm
      in case getJob flt (Namespace dm, jobName) w of
           (Inl err, w1) \<Rightarrow>
             if err = NotFound then
               (case createJob flt job w1 of
                  (Some err, w2) \<Rightarrow> (Inl (ApiError err), w2)
                | (None, w2) \<Rightarrow>
                    (case statusUpdate flt (dm\<lparr>Phase := PhaseCreatingPod\<rparr>) w2 of
                       (Some err, w3) \<Rightarrow> (Inl (ApiError err), w3)
                     | (None, w3) \<Rightarrow> (Inr \<lparr>Requeue = True, RequeueAfter = 0\<rparr>, w3)))
             else (Inl (ApiError err), w1)
         | (Inr foundJob, w1) \<Rightarrow>
             (case statusUpdate flt (dm\<lparr>Phase := PhaseCreatingPod\<rparr>) w1 of
                (Some err, w2) \<Rightarrow> (Inl (ApiError err), w2)
              | (None, w2) \<Rightarrow> (Inr \<lparr>Requeue = True, RequeueAfter = 0\<rparr>, w2)))"

text \<open>
  The test of lines 440 to 446 of \<^verbatim>\<open>waitForJobCompletion\<close>, in \<^verbatim>\<open>int32\<close> arithmetic: it
  chooses between two log lines and nothing else.
\<close>

definition msgFailedAfterRetries :: string where
  "msgFailedAfterRetries = ''Verification Job failed after all retries. DataMover process failed.''"

definition msgFailed :: string where
  "msgFailed = ''Verification Job failed. DataMover process failed.''"

definition reachedBackoffLimit :: "job \<Rightarrow> bool" where
  "reachedBackoffLimit job =
     (case BackoffLimit job of
        None \<Rightarrow> False
      | Some limit \<Rightarrow> sint (limit + 1) \<le> sint (Failed job))"

definition waitForJobCompletion ::
  "faults \<Rightarrow> datamover \<Rightarrow> world \<Rightarrow> (error + ctrl_result) \<times> world" where
  "waitForJobCompletion flt dm w =
     (let jobName = ''verify-'' @ RestoredPVCName dm in
      case getJob flt (Namespace dm, jobName) w of
        (Inl err, w1) \<Rightarrow> (Inl (ApiError err), w1)
      | (Inr job, w1) \<Rightarrow>
          if 0 < sint (Succeeded job) then
            (let w2 = w1\<lparr>PhaseStart :=
                        AList.delete (nsString (Namespace dm, Name dm) @ ''-'' @ PhaseCreatingPod)
                          (PhaseStart w1)\<rparr>;
                 phase = (if DeletePvcAfterBackup dm then PhaseCleaningUp else PhaseCompleted)
             in case statusUpdate flt (dm\<lparr>Phase := phase\<rparr>) w2 of
                  (Some err, w3) \<Rightarrow> (Inl (ApiError err), w3)
                | (None, w3) \<Rightarrow> (Inr \<lparr>Requeue = True, RequeueAfter = 0\<rparr>, w3))
          else if 0 < sint (Failed job) then
            (let w2 = logError
                        (if reachedBackoffLimit job then msgFailedAfterRetries else msgFailed) w1
             in case statusUpdate flt (dm\<lparr>Phase := PhaseFailed\<rparr>) w2 of
                  (Some err, w3) \<Rightarrow> (Inl (ApiError err), w3)
                | (None, w3) \<Rightarrow> (Inr Result0, w3))
          else (Inr \<lparr>Requeue = False, RequeueAfter = 15 * Second\<rparr>, w1))"

definition cleanupClonedPVC ::
  "faults \<Rightarrow> datamover \<Rightarrow> world \<Rightarrow> (error + ctrl_result) \<times> world" where
  "cleanupClonedPVC flt dm w =
     (if RestoredPVCName dm = '''' then
        (case statusUpdate flt (dm\<lparr>Phase := PhaseCompleted\<rparr>) w of
           (Some err, w1) \<Rightarrow> (Inl (ApiError err), w1)
         | (None, w1) \<Rightarrow> (Inr Result0, w1))
      else
        (case getPVC flt (Namespace dm, RestoredPVCName dm) w of
           (Inl err, w1) \<Rightarrow>
             if err = NotFound then
               (case statusUpdate flt (dm\<lparr>Phase := PhaseCompleted\<rparr>) w1 of
                  (Some err, w2) \<Rightarrow> (Inl (ApiError err), w2)
                | (None, w2) \<Rightarrow> (Inr Result0, w2))
             else (Inl (ApiError err), w1)
         | (Inr pvc, w1) \<Rightarrow>
             (case deletePVC flt pvc w1 of
                (Some err, w2) \<Rightarrow>
                  (case statusUpdate flt (dm\<lparr>Phase := PhaseFailed\<rparr>) w2 of
                     (Some err, w3) \<Rightarrow> (Inl (ApiError err), w3)
                   | (None, w3) \<Rightarrow> (Inr Result0, w3))
              | (None, w2) \<Rightarrow>
                  (case statusUpdate flt (dm\<lparr>Phase := PhaseCompleted\<rparr>) w2 of
                     (Some err, w3) \<Rightarrow> (Inl (ApiError err), w3)
                   | (None, w3) \<Rightarrow> (Inr Result0, w3)))))"

definition Reconcile :: "faults \<Rightarrow> nsname \<Rightarrow> world \<Rightarrow> (error + ctrl_result) \<times> world" where
  "Reconcile flt req w =
     (case getDataMover flt req w of
        (Inl err, w1) \<Rightarrow>
          if err = NotFound then
            (Inr Result0, w1\<lparr>PhaseStart := AList.delete (nsString req) (PhaseStart w1)\<rparr>)
          else (Inl (ApiError err), w1)
      | (Inr dataMover, w1) \<Rightarrow>
          if Phase dataMover = PhaseInitial then
            createClonedPVC flt dataMover
              (w1\<lparr>PhaseStart := AList.update (nsString req @ ''-'' @ PhaseCreatingPVC)
                                  (Unix (now w1)) (PhaseStart w1)\<rparr>)
          else if Phase dataMover = PhaseCreatingPVC then waitForPVCBound flt dataMover w1
          else if Phase dataMover = PhasePVCReady then
            createVerificationJob flt dataMover
              (w1\<lparr>PhaseStart := AList.update (nsString req @ ''-'' @ PhaseCreatingPod)
                                  (Unix (now w1))
                                  (AList.delete (nsString req @ ''-'' @ PhaseCreatingPVC)
                                     (PhaseStart w1))\<rparr>)
          else if Phase dataMover = PhaseCreatingPod then waitForJobCompletion flt dataMover w1
          else if Phase dataMover = PhaseCleaningUp then cleanupClonedPVC flt dataMover w1
          else if Phase dataMover = PhaseCompleted then (Inr Result0, w1)
          else if Phase dataMover = PhaseFailed then
            (case sweepPhaseStart (nsString req) (map fst (PhaseStart w1)) (PhaseStart w1) of
               (Some panic, m) \<Rightarrow> (Inl panic, w1\<lparr>PhaseStart := m\<rparr>)
             | (None, m) \<Rightarrow> (Inr Result0, w1\<lparr>PhaseStart := m\<rparr>))
          else (Inr \<lparr>Requeue = True, RequeueAfter = 0\<rparr>, w1))"

section \<open>The DataMoverPopulator reconciler\<close>

definition annPopulated :: string where
  "annPopulated = ''datamover.a-cup-of.coffee/populated''"
definition annPopulating :: string where
  "annPopulating = ''datamover.a-cup-of.coffee/populating''"
definition annCleanup :: string where
  "annCleanup = ''datamover.a-cup-of.coffee/cleanup-in-progress''"
definition annPopulatedBy :: string where
  "annPopulatedBy = ''datamover.a-cup-of.coffee/populated-by''"
definition annPopulatedAt :: string where
  "annPopulatedAt = ''datamover.a-cup-of.coffee/populated-at''"
definition annPrimePVC :: string where
  "annPrimePVC = ''datamover.a-cup-of.coffee/prime-pvc''"

text \<open>
  \<^verbatim>\<open>if x.Annotations != nil { if v, exists := x.Annotations[k]; exists && v == "true" ...\<close>
\<close>

definition annTrue :: "'a object_meta_scheme \<Rightarrow> string \<Rightarrow> bool" where
  "annTrue x k = (case Annotations x of None \<Rightarrow> False | Some m \<Rightarrow> m k = Some ''true'')"

text \<open>The annotations as a map that can be written: a nil map is replaced by an empty one.\<close>

definition annotationsOf :: "'a object_meta_scheme \<Rightarrow> (string \<rightharpoonup> string)" where
  "annotationsOf x = (case Annotations x of None \<Rightarrow> Map.empty | Some m \<Rightarrow> m)"

abbreviation maxRetries :: nat where "maxRetries \<equiv> 3"
abbreviation maxPVCRetries :: nat where "maxPVCRetries \<equiv> 3"

text \<open>
  The first retry loop of \<^verbatim>\<open>finalizePopulation\<close> (lines 427 to 452), from round \<open>i\<close> on:
  \<open>None\<close> when the loop is left by \<^verbatim>\<open>break\<close> or by its bound, \<open>Some err\<close> when it returns
  \<^verbatim>\<open>err\<close>.
\<close>

function clearClaimRef :: "faults \<Rightarrow> string \<Rightarrow> nat \<Rightarrow> world \<Rightarrow> api_error option \<times> world" where
  "clearClaimRef flt volumeName i w =
     (if i < maxRetries then
        (case getPV flt ('''', volumeName) w of
           (Inl err, w1) \<Rightarrow> (Some err, w1)
         | (Inr freshPV, w1) \<Rightarrow>
             (case updatePV flt (freshPV\<lparr>ClaimRef := None\<rparr>) w1 of
                (Some err, w2) \<Rightarrow>
                  if err = Conflict \<and> i < maxRetries - 1 then
                    clearClaimRef flt volumeName (i + 1)
                      (sleep (Millisecond * 100 * (i + 1)) w2)
                  else (Some err, w2)
              | (None, w2) \<Rightarrow> (None, w2)))
      else (None, w))"
  by pat_completeness auto
termination
  by (relation "measure (\<lambda>(flt, volumeName, i, w). maxRetries - i)") auto

declare clearClaimRef.simps [simp del]

text \<open>
  The second retry loop of \<^verbatim>\<open>finalizePopulation\<close> (lines 455 to 487), from round \<open>i\<close> on,
  and what it does to the fresh copy of the claim before writing it (lines 466 to 472).
\<close>

definition markedPopulated :: "pvc \<Rightarrow> pvc" where
  "markedPopulated freshFinalPVC =
     freshFinalPVC\<lparr>Annotations :=
        Some ((annotationsOf freshFinalPVC)
                (annPopulated \<mapsto> ''true'', annPopulating := None, annCleanup := None))\<rparr>"

function markPopulated :: "faults \<Rightarrow> nsname \<Rightarrow> nat \<Rightarrow> world \<Rightarrow> api_error option \<times> world" where
  "markPopulated flt original i w =
     (if i < maxPVCRetries then
        (case getPVC flt original w of
           (Inl err, w1) \<Rightarrow> (Some err, w1)
         | (Inr freshFinalPVC, w1) \<Rightarrow>
             (case updatePVC flt (markedPopulated freshFinalPVC) w1 of
                (Some err, w2) \<Rightarrow>
                  if err = Conflict \<and> i < maxPVCRetries - 1 then
                    markPopulated flt original (i + 1)
                      (sleep (Millisecond * 100 * (i + 1)) w2)
                  else (Some err, w2)
              | (None, w2) \<Rightarrow> (None, w2)))
      else (None, w))"
  by pat_completeness auto
termination
  by (relation "measure (\<lambda>(flt, original, i, w). maxPVCRetries - i)") auto

declare markPopulated.simps [simp del]

text \<open>The hand-off of \<^verbatim>\<open>finalizePopulation\<close>: the body of the \<^verbatim>\<open>if\<close> of line 334.\<close>

definition transferVolume ::
  "faults \<Rightarrow> pvc \<Rightarrow> pvc \<Rightarrow> world \<Rightarrow> (error + ctrl_result) \<times> world" where
  "transferVolume flt originalPVC primePVC w =
     (case getPV flt ('''', VolumeName primePVC) w of
        (Inl err, w1) \<Rightarrow> (Inl (ApiError err), w1)
      | (Inr pv, w1) \<Rightarrow>
     (case getPVC flt (Namespace originalPVC, Name originalPVC) w1 of
        (Inl err, w2) \<Rightarrow> (Inl (ApiError err), w2)
      | (Inr freshOriginalPVC, w2) \<Rightarrow>
     (case updatePVC flt
             (freshOriginalPVC\<lparr>Annotations :=
                  Some ((annotationsOf freshOriginalPVC)(annCleanup \<mapsto> ''true'')),
                VolumeName := VolumeName primePVC\<rparr>) w2 of
        (Some err, w3) \<Rightarrow> (Inl (ApiError err), w3)
      | (None, w3) \<Rightarrow>
     (case getJob flt (Namespace primePVC, ''datamover-populator-'' @ Name primePVC) w3 of
        (Inr existingJob, w4) \<Rightarrow>
          if DeletionTimestamp existingJob = None then
            (case deleteJob flt existingJob (Some ''Background'') w4 of
               (Some err, w5) \<Rightarrow> (Inl (ApiError err), w5)
             | (None, w5) \<Rightarrow> (Inr \<lparr>Requeue = False, RequeueAfter = 3 * Second\<rparr>, w5))
          else (Inr \<lparr>Requeue = False, RequeueAfter = 3 * Second\<rparr>, w4)
      | (Inl jobErr, w4) \<Rightarrow>
          if jobErr \<noteq> NotFound then (Inl (ApiError jobErr), w4)
          else
     (case getPVC flt (Namespace primePVC, Name primePVC) w4 of
        (Inl err, w5) \<Rightarrow> (Inl (ApiError err), w5)
      | (Inr latestPrimePVC, w5) \<Rightarrow>
     (case (if DeletionTimestamp latestPrimePVC \<noteq> None then (None, w5)
            else deletePVC flt latestPrimePVC w5) of
        (Some err, w6) \<Rightarrow> (Inl (ApiError err), w6)
      | (None, w6) \<Rightarrow>
     (case clearClaimRef flt (VolumeName primePVC) 0 w6 of
        (Some err, w7) \<Rightarrow> (Inl (ApiError err), w7)
      | (None, w7) \<Rightarrow>
     (case markPopulated flt (Namespace originalPVC, Name originalPVC) 0 w7 of
        (Some err, w8) \<Rightarrow> (Inl (ApiError err), w8)
      | (None, w8) \<Rightarrow> (Inr \<lparr>Requeue = False, RequeueAfter = 5 * Second\<rparr>, w8)))))))))"

definition finalizePopulation ::
  "faults \<Rightarrow> pvc \<Rightarrow> pvc \<Rightarrow> populator \<Rightarrow> world \<Rightarrow> (error + ctrl_result) \<times> world" where
  "finalizePopulation flt originalPVC primePVC populator w =
     (let primeUpdated = (annotationsOf primePVC annPopulated = None);
          primePVC1 = primePVC\<lparr>Annotations := Some
            (if primeUpdated
             then (annotationsOf primePVC)
                    (annPopulated \<mapsto> ''true'', annPopulatedBy \<mapsto> Name populator,
                     annPopulatedAt \<mapsto> RFC3339 (now w))
             else annotationsOf primePVC)\<rparr>
      in case (if primeUpdated then updatePVC flt primePVC1 w else (None, w)) of
           (Some err, w1) \<Rightarrow> (Inl (ApiError err), w1)
         | (None, w1) \<Rightarrow>
     (let originalUpdated = (annotationsOf originalPVC annPopulating = None);
          originalPVC1 = originalPVC\<lparr>Annotations := Some
            (if originalUpdated
             then (annotationsOf originalPVC)
                    (annPopulating \<mapsto> ''true'', annPopulatedBy \<mapsto> Name populator,
                     annPopulatedAt \<mapsto> RFC3339 (now w1), annPrimePVC \<mapsto> Name primePVC1)
             else annotationsOf originalPVC)\<rparr>
      in case (if originalUpdated then updatePVC flt originalPVC1 w1 else (None, w1)) of
           (Some err, w2) \<Rightarrow> (Inl (ApiError err), w2)
         | (None, w2) \<Rightarrow>
             if ClaimPhase originalPVC1 = ClaimPending \<and> ClaimPhase primePVC1 = ClaimBound
             then transferVolume flt originalPVC1 primePVC1 w2
             else (Inr Result0, w2)))"

text \<open>
  The job of \<^verbatim>\<open>createPopulationJob\<close>, without its constant security contexts.
  \<^verbatim>\<open>SetControllerReference\<close> cannot fail on a fresh job in the claim's namespace.
\<close>

definition createPopulationJob ::
  "faults \<Rightarrow> pvc \<Rightarrow> populator \<Rightarrow> world \<Rightarrow> (error + job) \<times> world" where
  "createPopulationJob flt pvc populator w =
     (case getSecret flt (Namespace pvc, PopSecretName populator) w of
        (Inl err, w1) \<Rightarrow> (Inl (ApiError err), w1)
      | (Inr secret, w1) \<Rightarrow>
          (let envVars =
                 map (\<lambda>key. EnvFromSecretKey key (PopSecretName populator) key) (DataKeys secret)
                 @ [EnvValue ''SOURCE_PATH'' (Path populator),
                    EnvValue ''POPULATION_MODE'' ''true'']
                 @ (if length (PopAdditionalEnv populator) > 0
                    then PopAdditionalEnv populator else []);
               image =
                 (case PopImage populator of
                    Some img \<Rightarrow>
                      (if Repository img = '''' then ''ghcr.io/qjoly/datamover-rclone''
                       else Repository img)
                      @ '':'' @ (if Tag img = '''' then ''latest'' else Tag img)
                  | None \<Rightarrow> ''ghcr.io/qjoly/datamover-rclone:latest'');
               pullPolicy =
                 (case PopImage populator of
                    Some img \<Rightarrow> (if PullPolicy img = '''' then ''Always'' else PullPolicy img)
                  | None \<Rightarrow> ''Always'');
               jobName = ''datamover-populator-'' @ Name pvc;
               backoffLimit = (2 :: 32 word)
           in (Inr \<lparr>Name = jobName, Namespace = Namespace pvc,
                    Labels = [''app.kubernetes.io/created-by'' \<mapsto> ''datamover-populator'',
                              ''datamover.a-cup-of.coffee/populator'' \<mapsto> Name populator,
                              ''datamover.a-cup-of.coffee/pvc'' \<mapsto> Name pvc],
                    Annotations = None, DeletionTimestamp = None, Finalizers = [],
                    OwnerReferences = [Name pvc],
                    BackoffLimit = Some backoffLimit,
                    InitContainers =
                      [\<lparr>ContainerName = ''chown-data'', Image = image, ImagePullPolicy = '''',
                        Command = [''sh'', ''-c'', ''chmod a+rwx /data/''],
                        Env = envVars, EnvFromSecret = [],
                        VolumeMounts = [(''target-data'', ''/data/'')]\<rparr>],
                    Containers =
                      [\<lparr>ContainerName = ''population'', Image = image,
                        ImagePullPolicy = pullPolicy, Command = [],
                        Env = envVars, EnvFromSecret = [],
                        VolumeMounts = [(''target-data'', ''/data/''),
                                        (''config-dir'', ''/config'')]\<rparr>],
                    Volumes = [(''target-data'', ClaimVolume (Name pvc)),
                               (''config-dir'', EmptyDirVolume)],
                    RestartPolicy = ''Never'',
                    Active = 0, Succeeded = 0, Failed = 0\<rparr>, w1)))"

text \<open>The prime claim built at lines 199 to 215 of \<^verbatim>\<open>ensurePopulationJob\<close>.\<close>

definition primeClaim :: "pvc \<Rightarrow> populator \<Rightarrow> pvc" where
  "primeClaim pvc populator =
     \<lparr>Name = Name pvc @ ''-prime'', Namespace = Namespace pvc,
      Labels = [''datamover.a-cup-of.coffee/prime-for'' \<mapsto> Name pvc,
                ''datamover.a-cup-of.coffee/populator'' \<mapsto> Name populator],
      Annotations = None, DeletionTimestamp = None, Finalizers = [],
      AccessModes = AccessModes pvc,
      Limits = Limits pvc,
      Requests = Requests pvc,
      StorageClassName = StorageClassName pvc,
      VolumeMode = VolumeMode pvc,
      DataSource = None,
      DataSourceRef = None,
      VolumeName = '''', ClaimPhase = ''''\<rparr>"

text \<open>\<^verbatim>\<open>ensurePopulationJob\<close> from line 228 on: the prime claim exists and is not being deleted.\<close>

definition populatePrime ::
  "faults \<Rightarrow> pvc \<Rightarrow> pvc \<Rightarrow> populator \<Rightarrow> world \<Rightarrow> (error + ctrl_result) \<times> world" where
  "populatePrime flt pvc primePVC populator w =
     (if ClaimPhase primePVC \<noteq> ClaimBound
      then (Inr \<lparr>Requeue = False, RequeueAfter = 10 * Second\<rparr>, w)
      else
        (case getJob flt (Namespace pvc, ''datamover-populator-'' @ Name pvc @ ''-prime'') w of
           (Inr existingJob, w1) \<Rightarrow>
             if 0 < sint (Succeeded existingJob) then
               finalizePopulation flt pvc primePVC populator w1
             else if 0 < sint (Failed existingJob) then
               (case deleteJob flt existingJob None w1 of
                  (Some err, w2) \<Rightarrow> (Inl (ApiError err), w2)
                | (None, w2) \<Rightarrow> (Inr \<lparr>Requeue = False, RequeueAfter = 2 * Minute\<rparr>, w2))
             else (Inr \<lparr>Requeue = False, RequeueAfter = 1 * Minute\<rparr>, w1)
         | (Inl err, w1) \<Rightarrow>
             if err \<noteq> NotFound then (Inl (ApiError err), w1)
             else
               (case createPopulationJob flt primePVC populator w1 of
                  (Inl err, w2) \<Rightarrow> (Inl err, w2)
                | (Inr job, w2) \<Rightarrow>
                    (case createJob flt job w2 of
                       (Some err, w3) \<Rightarrow> (Inl (ApiError err), w3)
                     | (None, w3) \<Rightarrow>
                         (Inr \<lparr>Requeue = False, RequeueAfter = 1 * Minute\<rparr>, w3)))))"

definition ensurePopulationJob ::
  "faults \<Rightarrow> pvc \<Rightarrow> populator \<Rightarrow> world \<Rightarrow> (error + ctrl_result) \<times> world" where
  "ensurePopulationJob flt pvc populator w =
     (if annTrue pvc annPopulated then (Inr Result0, w)
      else if annTrue pvc annCleanup then
        (case getPVC flt (Namespace pvc, Name pvc @ ''-prime'') w of
           (Inr primePVC, w1) \<Rightarrow> finalizePopulation flt pvc primePVC populator w1
         | (Inl err, w1) \<Rightarrow> (Inr \<lparr>Requeue = False, RequeueAfter = 3 * Second\<rparr>, w1))
      else
        (case getPVC flt (Namespace pvc, Name pvc @ ''-prime'') w of
           (Inr primePVC, w1) \<Rightarrow>
             if DeletionTimestamp primePVC \<noteq> None
             then (Inr \<lparr>Requeue = False, RequeueAfter = 5 * Second\<rparr>, w1)
             else populatePrime flt pvc primePVC populator w1
         | (Inl err, w1) \<Rightarrow>
             if err \<noteq> NotFound then (Inl (ApiError err), w1)
             else if annTrue pvc annCleanup
             then (Inr \<lparr>Requeue = False, RequeueAfter = 3 * Second\<rparr>, w1)
             else if annTrue pvc annPopulating
             then (Inr \<lparr>Requeue = False, RequeueAfter = 5 * Second\<rparr>, w1)
             else
               (case createPVC flt (primeClaim pvc populator) w1 of
                  (Some err, w2) \<Rightarrow> (Inl (ApiError err), w2)
                | (None, w2) \<Rightarrow> (Inr \<lparr>Requeue = False, RequeueAfter = 10 * Second\<rparr>, w2))))"

definition Reconcile_Populator ::
  "faults \<Rightarrow> nsname \<Rightarrow> world \<Rightarrow> (error + ctrl_result) \<times> world" where
  "Reconcile_Populator flt req w =
     (case getPVC flt req w of
        (Inl err, w1) \<Rightarrow>
          if err = NotFound then (Inr Result0, w1) else (Inl (ApiError err), w1)
      | (Inr pvc, w1) \<Rightarrow>
          (case DataSourceRef pvc of
             None \<Rightarrow> (Inr Result0, w1)
           | Some ref \<Rightarrow>
               if APIGroup ref = None
                  \<or> APIGroup ref \<noteq> Some ''datamover.a-cup-of.coffee''
                  \<or> Kind ref \<noteq> ''DataMoverPopulator''
               then (Inr Result0, w1)
               else
                 (case getPopulator flt (Namespace pvc, RefName ref) w1 of
                    (Inl err, w2) \<Rightarrow>
                      if err = NotFound then
                        (if ClaimPhase pvc = ClaimBound then (Inr Result0, w2)
                         else if annTrue pvc annPopulated then (Inr Result0, w2)
                         else (Inr \<lparr>Requeue = False, RequeueAfter = 10 * Second\<rparr>, w2))
                      else (Inl (ApiError err), w2)
                  | (Inr populator, w2) \<Rightarrow>
                      if annTrue pvc annPopulated then
                        (case getPVC flt (Namespace pvc, Name pvc @ ''-prime'') w2 of
                           (Inl err, w3) \<Rightarrow>
                             if err = NotFound then (Inr Result0, w3)
                             else (Inl (ApiError err), w3)
                         | (Inr primePVC, w3) \<Rightarrow> ensurePopulationJob flt pvc populator w3)
                      else ensurePopulationJob flt pvc populator w2)))"

section \<open>Reading the log\<close>

text \<open>
  What a run added to the log, and what the added calls asked for: the phases written to
  requests, the claims created, the objects of the update calls, and the calls that change
  the cluster at all. \<open>cluster\<close> is the part of the world that lives in the cluster.
\<close>

definition emitted :: "world \<Rightarrow> 'a \<times> world \<Rightarrow> event list" where
  "emitted w res = drop (length (trace w)) (trace (snd res))"

definition phaseWrites :: "event list \<Rightarrow> (nsname \<times> string) list" where
  "phaseWrites es =
     concat (map (\<lambda>e. case e of Call (StatusUpdate dm) r \<Rightarrow> [(key_of dm, Phase dm)] | _ \<Rightarrow> []) es)"

definition createdClaims :: "event list \<Rightarrow> pvc list" where
  "createdClaims es =
     concat (map (\<lambda>e. case e of Call (Create (OPVC p)) r \<Rightarrow> [p] | _ \<Rightarrow> []) es)"

definition updateAttempts :: "event list \<Rightarrow> obj list" where
  "updateAttempts es =
     concat (map (\<lambda>e. case e of Call (Update ob) r \<Rightarrow> [ob] | _ \<Rightarrow> []) es)"

fun mutating :: "event \<Rightarrow> bool" where
  "mutating (Call (Get k n) r) = False"
| "mutating (Call c r) = True"
| "mutating e = False"

definition cluster ::
  "world \<Rightarrow> (nsname \<rightharpoonup> datamover) \<times> (nsname \<rightharpoonup> populator) \<times> (nsname \<rightharpoonup> pvc)
            \<times> (nsname \<rightharpoonup> job) \<times> (nsname \<rightharpoonup> pv) \<times> (nsname \<rightharpoonup> secret)" where
  "cluster w = (datamovers w, populators w, pvcs w, jobs w, pvs w, secrets w)"

text \<open>The edges of the phase table of the specification, as its section 4.1 lists them.\<close>

definition phaseEdge :: "string \<Rightarrow> string \<Rightarrow> bool" where
  "phaseEdge p q \<longleftrightarrow>
     (p = PhaseInitial \<and> q = PhaseCreatingPVC)
   \<or> (p = PhaseCreatingPVC \<and> q = PhasePVCReady)
   \<or> (p = PhasePVCReady \<and> q = PhaseCreatingPod)
   \<or> (p = PhaseCreatingPod \<and> (q = PhaseCleaningUp \<or> q = PhaseCompleted \<or> q = PhaseFailed))
   \<or> (p = PhaseCleaningUp \<and> (q = PhaseCompleted \<or> q = PhaseFailed))"

text \<open>
  A store of claims is well named when every claim is stored under its own namespace and
  name, as the API server keeps it. \<open>populatedOnly\<close> is the final state of a target claim's
  annotations.
\<close>

definition claimsNamed :: "(nsname \<rightharpoonup> pvc) \<Rightarrow> bool" where
  "claimsNamed m \<longleftrightarrow> (\<forall>k p. m k = Some p \<longrightarrow> key_of p = k)"

definition populatedOnly :: "pvc \<Rightarrow> bool" where
  "populatedOnly p \<longleftrightarrow>
     (case Annotations p of
        None \<Rightarrow> False
      | Some m \<Rightarrow> m annPopulated = Some ''true'' \<and> m annPopulating = None \<and> m annCleanup = None)"

section \<open>Example clusters\<close>

text \<open>
  A request \<^verbatim>\<open>default/backup\<close> for the claim \<^verbatim>\<open>data\<close>, at the second 7 of the clock, and a
  target claim \<^verbatim>\<open>restore\<close> that names the populator \<^verbatim>\<open>pop\<close>. The theorems below are
  instantiated on them.
\<close>

definition exSource :: pvc where
  "exSource =
     \<lparr>Name = ''data'', Namespace = ''default'', Labels = Map.empty, Annotations = None,
      DeletionTimestamp = None, Finalizers = [''kubernetes.io/pvc-protection''],
      AccessModes = [''ReadWriteOnce''], Limits = Map.empty,
      Requests = [ResourceStorage \<mapsto> 1073741824], StorageClassName = Some ''standard'',
      VolumeMode = Some ''Filesystem'', DataSource = None, DataSourceRef = None,
      VolumeName = ''pv-0'', ClaimPhase = ClaimBound\<rparr>"

definition exMover :: "string \<Rightarrow> string \<Rightarrow> string \<Rightarrow> datamover" where
  "exMover name phase clone =
     \<lparr>Name = name, Namespace = ''default'', Labels = Map.empty, Annotations = None,
      DeletionTimestamp = None, Finalizers = [],
      SourcePVC = ''data'', SecretName = ''creds'', AdditionalEnv = [],
      AddTimestampPrefix = True, DeletePvcAfterBackup = True,
      ImageName = '''', ImageTag = '''', ImagePull = '''',
      Phase = phase, RestoredPVCName = clone\<rparr>"

definition exClone :: pvc where
  "exClone = (clonedClaim (exMover ''backup'' PhaseInitial '''') exSource ''data-cloned-7'')
               \<lparr>ClaimPhase := ClaimBound\<rparr>"

definition exJob :: "32 word \<Rightarrow> 32 word \<Rightarrow> job" where
  "exJob succeeded failed =
     (verificationJob (exMover ''backup'' PhaseCreatingPod ''data-cloned-7''))
       \<lparr>Succeeded := succeeded, Failed := failed\<rparr>"

definition exWorld ::
  "datamover \<Rightarrow> (nsname \<rightharpoonup> pvc) \<Rightarrow> (nsname \<rightharpoonup> job) \<Rightarrow> (string \<times> int) list \<Rightarrow> world" where
  "exWorld dm claims js starts =
     \<lparr>datamovers = [(''default'', Name dm) \<mapsto> dm], populators = Map.empty,
      pvcs = claims, jobs = js, pvs = Map.empty, secrets = Map.empty,
      PhaseStart = starts, now = \<lparr>Unix = 7, RFC3339 = ''1970-01-01T00:00:07Z''\<rparr>,
      trace = []\<rparr>"

text \<open>The sync job has one failed pod, no success, and its retry budget of 2 retries.\<close>

definition firstFailureWorld :: world where
  "firstFailureWorld =
     exWorld (exMover ''backup'' PhaseCreatingPod ''data-cloned-7'')
       [(''default'', ''data'') \<mapsto> exSource, (''default'', ''data-cloned-7'') \<mapsto> exClone]
       [(''default'', ''verify-data-cloned-7'') \<mapsto> exJob 0 1] []"

text \<open>
  A failed request with a long name, while the request \<^verbatim>\<open>default/a\<close> is waiting for its job
  and so has its entry in \<^verbatim>\<open>PhaseStart\<close>.
\<close>

definition failedWorld :: world where
  "failedWorld =
     exWorld (exMover ''backup-of-everything'' PhaseFailed ''data-cloned-7'')
       [(''default'', ''data'') \<mapsto> exSource] Map.empty [(''default/a-CreatingPod'', 3)]"





definition cleaningWorld :: "string \<Rightarrow> (nsname \<rightharpoonup> pvc) \<Rightarrow> world" where
  "cleaningWorld clone claims =
     exWorld (exMover ''backup'' PhaseCleaningUp clone) claims Map.empty []"

definition completedWorld :: world where
  "completedWorld =
     exWorld (exMover ''backup'' PhaseCompleted ''data-cloned-7'')
       [(''default'', ''data'') \<mapsto> exSource] Map.empty []"


definition failDeletes :: faults where
  "failDeletes h c = (case c of Delete k n p \<Rightarrow> Some Unavailable | _ \<Rightarrow> None)"

definition conflictUpdates :: faults where
  "conflictUpdates h c = (case c of Update ob \<Rightarrow> Some Conflict | _ \<Rightarrow> None)"

text \<open>
  Every update of a volume meets a version conflict; every update that marks a claim as
  populated meets one.
\<close>

definition conflictVolumeUpdates :: faults where
  "conflictVolumeUpdates h c = (case c of Update (OPV v) \<Rightarrow> Some Conflict | _ \<Rightarrow> None)"

definition conflictMarking :: faults where
  "conflictMarking h c =
     (case c of
        Update (OPVC p) \<Rightarrow> if annTrue p annPopulated then Some Conflict else None
      | _ \<Rightarrow> None)"

definition exTarget :: "(string \<rightharpoonup> string) option \<Rightarrow> pvc" where
  "exTarget anns =
     \<lparr>Name = ''restore'', Namespace = ''default'', Labels = Map.empty, Annotations = anns,
      DeletionTimestamp = None, Finalizers = [],
      AccessModes = [''ReadWriteOnce''], Limits = Map.empty,
      Requests = [ResourceStorage \<mapsto> 1073741824], StorageClassName = Some ''standard'',
      VolumeMode = Some ''Filesystem'', DataSource = None,
      DataSourceRef = Some \<lparr>APIGroup = Some ''datamover.a-cup-of.coffee'',
                             Kind = ''DataMoverPopulator'', RefName = ''pop''\<rparr>,
      VolumeName = '''', ClaimPhase = ClaimPending\<rparr>"

definition exPopulator :: populator where
  "exPopulator =
     \<lparr>Name = ''pop'', Namespace = ''default'', Labels = Map.empty, Annotations = None,
      DeletionTimestamp = None, Finalizers = [],
      PopSecretName = ''creds'', Path = ''bucket/data'', PopImage = None,
      PopAdditionalEnv = []\<rparr>"

definition exPrime :: pvc where
  "exPrime =
     (primeClaim (exTarget None) exPopulator)
       \<lparr>Annotations := Some [annPopulated \<mapsto> ''true''], VolumeName := ''pv-1'',
        ClaimPhase := ClaimBound\<rparr>"

definition exVolume :: pv where
  "exVolume =
     \<lparr>Name = ''pv-1'', Namespace = '''', Labels = Map.empty, Annotations = None,
      DeletionTimestamp = None, Finalizers = [],
      ClaimRef = Some (''default'', ''restore-prime'')\<rparr>"

definition popWorld :: "(nsname \<rightharpoonup> pvc) \<Rightarrow> world" where
  "popWorld claims =
     \<lparr>datamovers = Map.empty, populators = [(''default'', ''pop'') \<mapsto> exPopulator],
      pvcs = claims, jobs = Map.empty, pvs = [('''', ''pv-1'') \<mapsto> exVolume],
      secrets = Map.empty, PhaseStart = [],
      now = \<lparr>Unix = 7, RFC3339 = ''1970-01-01T00:00:07Z''\<rparr>, trace = []\<rparr>"

text \<open>
  The hand-off about to complete: the job is gone, the prime claim is bound to \<^verbatim>\<open>pv-1\<close>,
  the target claim is pending and marked as populating.
\<close>

definition handoffTarget :: pvc where
  "handoffTarget = exTarget (Some [annPopulating \<mapsto> ''true'', annCleanup \<mapsto> ''true''])"

definition handoffWorld :: world where
  "handoffWorld =
     popWorld [(''default'', ''restore'') \<mapsto> handoffTarget,
               (''default'', ''restore-prime'') \<mapsto> exPrime]"

text \<open>A target claim that carries the \<^verbatim>\<open>populating\<close> annotation with the value \<^verbatim>\<open>false\<close>.\<close>

definition annotatedTarget :: pvc where
  "annotatedTarget = exTarget (Some [annPopulating \<mapsto> ''false''])"

definition annotatedWorld :: world where
  "annotatedWorld = popWorld [(''default'', ''restore'') \<mapsto> annotatedTarget]"

definition populatedTarget :: pvc where
  "populatedTarget = (exTarget (Some [annPopulated \<mapsto> ''true'']))\<lparr>VolumeName := ''pv-1''\<rparr>"

definition populatedWorld :: world where
  "populatedWorld = popWorld [(''default'', ''restore'') \<mapsto> populatedTarget]"

definition foreignWorld :: world where
  "foreignWorld = popWorld [(''default'', ''data'') \<mapsto> exSource]"

section \<open>Following a run call by call\<close>

text \<open>
  \<open>post res Q\<close> says that \<open>Q\<close> holds of the answer and the world a run ends with. The
  rules take a run apart at its first call, so that a property of a reconciler is proved
  path by path: the rules for a read and for a write name the answer of the call and give
  the world after it. The rules with a \<open>0\<close> forget how the answer came about.
\<close>

definition post :: "'a \<times> world \<Rightarrow> ('a \<Rightarrow> world \<Rightarrow> bool) \<Rightarrow> bool" where
  "post res Q \<longleftrightarrow> Q (fst res) (snd res)"

section \<open>Facts about the constants and the log\<close>

lemma phase_distinct [simp]:
  "PhaseInitial \<noteq> PhaseCreatingPVC" "PhaseInitial \<noteq> PhasePVCReady"
  "PhaseInitial \<noteq> PhaseCreatingPod" "PhaseInitial \<noteq> PhaseCleaningUp"
  "PhaseInitial \<noteq> PhaseCompleted" "PhaseInitial \<noteq> PhaseFailed"
  "PhaseCreatingPVC \<noteq> PhasePVCReady" "PhaseCreatingPVC \<noteq> PhaseCreatingPod"
  "PhaseCreatingPVC \<noteq> PhaseCleaningUp" "PhaseCreatingPVC \<noteq> PhaseCompleted"
  "PhaseCreatingPVC \<noteq> PhaseFailed"
  "PhasePVCReady \<noteq> PhaseCreatingPod" "PhasePVCReady \<noteq> PhaseCleaningUp"
  "PhasePVCReady \<noteq> PhaseCompleted" "PhasePVCReady \<noteq> PhaseFailed"
  "PhaseCreatingPod \<noteq> PhaseCleaningUp" "PhaseCreatingPod \<noteq> PhaseCompleted"
  "PhaseCreatingPod \<noteq> PhaseFailed"
  "PhaseCleaningUp \<noteq> PhaseCompleted" "PhaseCleaningUp \<noteq> PhaseFailed"
  "PhaseCompleted \<noteq> PhaseFailed"
  by (simp_all add: PhaseInitial_def PhaseCreatingPVC_def PhasePVCReady_def PhaseCreatingPod_def
        PhaseCleaningUp_def PhaseCompleted_def PhaseFailed_def)

lemmas phase_distinct' [simp] = phase_distinct [symmetric]

lemma ann_distinct [simp]:
  "annPopulated \<noteq> annPopulating" "annPopulated \<noteq> annCleanup"
  "annPopulated \<noteq> annPopulatedBy" "annPopulated \<noteq> annPopulatedAt"
  "annPopulated \<noteq> annPrimePVC"
  "annPopulating \<noteq> annCleanup" "annPopulating \<noteq> annPopulatedBy"
  "annPopulating \<noteq> annPopulatedAt" "annPopulating \<noteq> annPrimePVC"
  "annCleanup \<noteq> annPopulatedBy" "annCleanup \<noteq> annPopulatedAt" "annCleanup \<noteq> annPrimePVC"
  "annPopulatedBy \<noteq> annPopulatedAt" "annPopulatedBy \<noteq> annPrimePVC"
  "annPopulatedAt \<noteq> annPrimePVC"
  by (simp_all add: annPopulated_def annPopulating_def annCleanup_def annPopulatedBy_def
        annPopulatedAt_def annPrimePVC_def)

lemmas ann_distinct' [simp] = ann_distinct [symmetric]

lemma phaseWrites_simps [simp]:
  "phaseWrites [] = []"
  "phaseWrites (Call (StatusUpdate dm) r # es) = (key_of dm, Phase dm) # phaseWrites es"
  "phaseWrites (Call (Get k n) r # es) = phaseWrites es"
  "phaseWrites (Call (Create ob) r # es) = phaseWrites es"
  "phaseWrites (Call (Update ob) r # es) = phaseWrites es"
  "phaseWrites (Call (Delete k n pol) r # es) = phaseWrites es"
  "phaseWrites (Sleep d # es) = phaseWrites es"
  "phaseWrites (LogError msg # es) = phaseWrites es"
  "phaseWrites (es @ es') = phaseWrites es @ phaseWrites es'"
  by (simp_all add: phaseWrites_def)

lemma createdClaims_simps [simp]:
  "createdClaims [] = []"
  "createdClaims (Call (Create (OPVC p)) r # es) = p # createdClaims es"
  "createdClaims (Call (Create (OJob j)) r # es) = createdClaims es"
  "createdClaims (Call (Create (OPV v)) r # es) = createdClaims es"
  "createdClaims (Call (StatusUpdate dm) r # es) = createdClaims es"
  "createdClaims (Call (Get k n) r # es) = createdClaims es"
  "createdClaims (Call (Update ob) r # es) = createdClaims es"
  "createdClaims (Call (Delete k n pol) r # es) = createdClaims es"
  "createdClaims (Sleep d # es) = createdClaims es"
  "createdClaims (LogError msg # es) = createdClaims es"
  "createdClaims (es @ es') = createdClaims es @ createdClaims es'"
  by (simp_all add: createdClaims_def)

lemma updateAttempts_simps [simp]:
  "updateAttempts [] = []"
  "updateAttempts (Call (Update ob) r # es) = ob # updateAttempts es"
  "updateAttempts (Call (Create ob) r # es) = updateAttempts es"
  "updateAttempts (Call (StatusUpdate dm) r # es) = updateAttempts es"
  "updateAttempts (Call (Get k n) r # es) = updateAttempts es"
  "updateAttempts (Call (Delete k n pol) r # es) = updateAttempts es"
  "updateAttempts (Sleep d # es) = updateAttempts es"
  "updateAttempts (LogError msg # es) = updateAttempts es"
  "updateAttempts (es @ es') = updateAttempts es @ updateAttempts es'"
  by (simp_all add: updateAttempts_def)

lemma created_in_createdClaims:
  "Call (Create (OPVC p)) r \<in> set es \<Longrightarrow> p \<in> set (createdClaims es)"
  by (force simp add: createdClaims_def)

lemma no_faults_simp [simp]: "no_faults h c = None"
  by (simp add: no_faults_def)

lemma read_answer_Inr:
  "read_answer flt h c st = Inr x \<longleftrightarrow> flt h c = None \<and> st = Some x"
  by (simp add: read_answer_def split: option.splits)

lemma read_answer_Inl:
  "read_answer flt h c st = Inl e \<longleftrightarrow>
     flt h c = Some e \<or> (flt h c = None \<and> st = None \<and> e = NotFound)"
  by (auto simp add: read_answer_def split: option.splits)

lemma write_answer_None:
  "write_answer flt h c refused = None \<longleftrightarrow> flt h c = None \<and> refused = None"
  by (simp add: write_answer_def split: option.splits)

lemma write_answer_Some:
  "write_answer flt h c refused = Some e \<longleftrightarrow>
     flt h c = Some e \<or> (flt h c = None \<and> refused = Some e)"
  by (simp add: write_answer_def split: option.splits)

lemmas answer_simps = read_answer_Inr read_answer_Inl write_answer_None write_answer_Some

lemma absent_simps [simp]:
  "absent st = None \<longleftrightarrow> st \<noteq> None"
  "absent st = Some e \<longleftrightarrow> st = None \<and> e = NotFound"
  by (auto simp add: absent_def split: option.splits)

lemma present_simps [simp]:
  "present st = None \<longleftrightarrow> st = None"
  "present st = Some e \<longleftrightarrow> st \<noteq> None \<and> e = AlreadyExists"
  by (auto simp add: present_def split: option.splits)

lemma error_of_simps [simp]: "error_of (Inl e) = Some e" "error_of (Inr x) = None"
  by (simp_all add: error_of_def)

lemma fst_getPVC [simp]:
  "fst (getPVC flt k w) = read_answer flt (trace w) (Get KPVC k) (pvcs w k)"
  by (simp add: getPVC_def api_read_def Let_def)

lemma fst_getJob [simp]:
  "fst (getJob flt k w) = read_answer flt (trace w) (Get KJob k) (jobs w k)"
  by (simp add: getJob_def api_read_def Let_def)

lemmas client_defs = getDataMover_def getPopulator_def getPVC_def getJob_def getPV_def
  getSecret_def createPVC_def createJob_def updatePVC_def updatePV_def statusUpdate_def
  deletePVC_def deleteJob_def

lemmas store_defs = storeClaim_def storeJob_def storeVolume_def storeStatus_def
  removeClaim_def removeJob_def

lemmas eval_defs = client_defs api_read_def api_write_def read_answer_def write_answer_def
  error_of_def absent_def present_def record_call_def sleep_def logError_def store_defs
  key_of_def Let_def

lemmas step_defs = createClonedPVC_def waitForPVCBound_def createVerificationJob_def
  waitForJobCompletion_def cleanupClonedPVC_def

lemma store_trace [simp]:
  "trace (storeClaim p w) = trace w"
  "trace (storeJob j w) = trace w"
  "trace (storeVolume v w) = trace w"
  "trace (storeStatus dm w) = trace w"
  "trace (removeClaim k w) = trace w"
  "trace (removeJob k w) = trace w"
  by (simp_all add: store_defs)

lemma pvcs_simps [simp]:
  "pvcs (storeClaim p w) = (pvcs w)(key_of p \<mapsto> p)"
  "pvcs (storeVolume v w) = pvcs w"
  "pvcs (storeJob j w) = pvcs w"
  "pvcs (removeJob kj w) = pvcs w"
  "pvcs (storeStatus dm w) = pvcs w"
  "pvcs (sleep d w) = pvcs w"
  by (simp_all add: store_defs sleep_def)

lemma key_of_updates [simp]:
  "key_of (dm\<lparr>Phase := ph\<rparr>) = key_of dm"
  "key_of (dm\<lparr>RestoredPVCName := n\<rparr>) = key_of dm"
  "key_of (p\<lparr>Annotations := a\<rparr>) = key_of p"
  "key_of (p\<lparr>VolumeName := v\<rparr>) = key_of p"
  "key_of (markedPopulated p) = key_of p"
  "key_of (primeClaim pvc populator) = (Namespace pvc, Name pvc @ ''-prime'')"
  by (simp_all add: key_of_def markedPopulated_def primeClaim_def)

lemma claimsNamed_upd [simp]:
  "claimsNamed m \<Longrightarrow> key_of p = k \<Longrightarrow> claimsNamed (m(k \<mapsto> p))"
  by (simp add: claimsNamed_def)

lemma claimsNamed_removeClaim [simp]:
  "claimsNamed (pvcs w) \<Longrightarrow> claimsNamed (pvcs (removeClaim k w))"
  by (auto simp add: claimsNamed_def removeClaim_def key_of_def split: option.splits if_splits)

lemma claimsNamedD: "claimsNamed m \<Longrightarrow> m k = Some p \<Longrightarrow> key_of p = k"
  unfolding claimsNamed_def by blast

lemma populatedOnly_marked [simp]: "populatedOnly (markedPopulated p)"
  by (simp add: populatedOnly_def markedPopulated_def)

section \<open>Rules for following a run\<close>

lemma post_pair: "Q a w \<Longrightarrow> post (a, w) Q"
  by (simp add: post_def)

lemma post_if: "(c \<Longrightarrow> post A Q) \<Longrightarrow> (\<not> c \<Longrightarrow> post B Q) \<Longrightarrow> post (if c then A else B) Q"
  by simp

lemma post_case_sum:
  "(\<And>e. a = Inl e \<Longrightarrow> post (A e) Q) \<Longrightarrow> (\<And>x. a = Inr x \<Longrightarrow> post (B x) Q) \<Longrightarrow>
   post (case a of Inl e \<Rightarrow> A e | Inr x \<Rightarrow> B x) Q"
  by (cases a) simp_all

lemma post_case_option:
  "(a = None \<Longrightarrow> post A Q) \<Longrightarrow> (\<And>x. a = Some x \<Longrightarrow> post (B x) Q) \<Longrightarrow>
   post (case a of None \<Rightarrow> A | Some x \<Rightarrow> B x) Q"
  by (cases a) simp_all

lemma post_case_if:
  "(c \<Longrightarrow> post (case A of (a, w1) \<Rightarrow> body a w1) Q) \<Longrightarrow>
   (\<not> c \<Longrightarrow> post (case B of (a, w1) \<Rightarrow> body a w1) Q) \<Longrightarrow>
   post (case (if c then A else B) of (a, w1) \<Rightarrow> body a w1) Q"
  by simp

lemma post_case_pair:
  "post (body a w) Q \<Longrightarrow> post (case (a, w) of (a, w1) \<Rightarrow> body a w1) Q"
  by simp

lemma post_seq:
  "(\<And>a w1. f = (a, w1) \<Longrightarrow> post (body a w1) Q) \<Longrightarrow> post (case f of (a, w1) \<Rightarrow> body a w1) Q"
  by (cases f) simp

lemma post_mono: "post r Q \<Longrightarrow> (\<And>a w. Q a w \<Longrightarrow> Q' a w) \<Longrightarrow> post r Q'"
  by (simp add: post_def)

lemma post_seq_spec:
  "post f S \<Longrightarrow> (\<And>a w1. S a w1 \<Longrightarrow> post (body a w1) Q) \<Longrightarrow>
   post (case f of (a, w1) \<Rightarrow> body a w1) Q"
  by (cases f) (simp add: post_def)

lemma post_api_read:
  assumes "\<And>a. read_answer flt (trace w) (Get knd k) st = a \<Longrightarrow>
             post (body a (w\<lparr>trace := trace w @ [Call (Get knd k) (error_of a)]\<rparr>)) Q"
  shows "post (case api_read flt knd k st w of (a, w1) \<Rightarrow> body a w1) Q"
  using assms by (simp add: api_read_def Let_def record_call_def)

lemma post_api_write:
  assumes "\<And>a. write_answer flt (trace w) c refused = a \<Longrightarrow>
             post (body a ((if a = None then wn else w)\<lparr>trace := trace w @ [Call c a]\<rparr>)) Q"
    and "trace wn = trace w"
  shows "post (case api_write flt c refused wn w of (a, w1) \<Rightarrow> body a w1) Q"
  using assms(1) [OF refl] assms(2)
  by (cases "write_answer flt (trace w) c refused")
     (simp_all add: api_write_def Let_def record_call_def)

lemma post_api_read0:
  assumes "\<And>a. post (body a (w\<lparr>trace := trace w @ [Call (Get knd k) (error_of a)]\<rparr>)) Q"
  shows "post (case api_read flt knd k st w of (a, w1) \<Rightarrow> body a w1) Q"
  using assms by (rule post_api_read)

lemma post_api_write0:
  assumes "\<And>a. post (body a ((if a = None then wn else w)\<lparr>trace := trace w @ [Call c a]\<rparr>)) Q"
    and "trace wn = trace w"
  shows "post (case api_write flt c refused wn w of (a, w1) \<Rightarrow> body a w1) Q"
  using assms by (rule post_api_write)

lemmas post_control =
  post_pair post_if post_case_sum post_case_option post_case_if post_case_pair

lemmas post_rules = post_control post_api_read post_api_write

lemmas post_rules0 = post_control post_api_read0 post_api_write0

section \<open>The two retry loops and the hand-off\<close>

lemma clearClaimRef_runs:
  "post (clearClaimRef flt vol i w) (\<lambda>a w'.
     (\<exists>es. trace w' = trace w @ es \<and> createdClaims es = [] \<and>
           length (updateAttempts es) \<le> maxRetries - i) \<and>
     pvcs w' = pvcs w)"
proof (induction "maxRetries - i" arbitrary: i w)
  case 0
  then show ?case
    by (subst clearClaimRef.simps) (simp add: post_def)
next
  case (Suc n)
  note IH = post_mono [OF Suc.hyps(1)]
  show ?case
    apply (subst clearClaimRef.simps)
    unfolding client_defs
    apply (intro post_rules0 IH)
    using Suc.hyps(2) apply (auto simp add: store_defs sleep_def)
    done
qed

lemma markPopulated_runs:
  "post (markPopulated flt k i w) (\<lambda>a w'.
     (\<exists>es. trace w' = trace w @ es \<and> createdClaims es = [] \<and>
           length (updateAttempts es) \<le> maxPVCRetries - i) \<and>
     (claimsNamed (pvcs w) \<and> a = None \<and> i < maxPVCRetries \<longrightarrow>
        (\<exists>p. length (trace w) < length (trace w') \<and>
             last (trace w') = Call (Update (OPVC p)) None \<and>
             pvcs w' k = Some p \<and> populatedOnly p)))"
proof (induction "maxPVCRetries - i" arbitrary: i w)
  case 0
  then show ?case
    by (subst markPopulated.simps) (simp add: post_def)
next
  case (Suc n)
  note IH = post_mono [OF Suc.hyps(1)]
  show ?case
    apply (subst markPopulated.simps)
    unfolding client_defs
    apply (intro post_rules IH)
    using Suc.hyps(2)
    by (auto simp add: sleep_def answer_simps dest: claimsNamedD)
qed

lemma transferVolume_runs:
  "post (transferVolume flt originalPVC primePVC w) (\<lambda>res w'.
     (\<exists>es. trace w' = trace w @ es \<and> createdClaims es = []) \<and>
     (claimsNamed (pvcs w) \<and> res = Inr \<lparr>Requeue = False, RequeueAfter = 5 * Second\<rparr> \<longrightarrow>
        (\<exists>p. length (trace w) < length (trace w') \<and>
             last (trace w') = Call (Update (OPVC p)) None \<and>
             pvcs w' (Namespace originalPVC, Name originalPVC) = Some p \<and> populatedOnly p)))"
  unfolding transferVolume_def client_defs
  apply (intro post_rules0 post_seq_spec [OF clearClaimRef_runs]
           post_seq_spec [OF markPopulated_runs])
  apply auto
  done

lemma finalizePopulation_runs:
  "post (finalizePopulation flt originalPVC primePVC populator w) (\<lambda>res w'.
     (\<exists>es. trace w' = trace w @ es \<and> createdClaims es = []) \<and>
     (claimsNamed (pvcs w) \<and> res = Inr \<lparr>Requeue = False, RequeueAfter = 5 * Second\<rparr> \<longrightarrow>
        (\<exists>p. length (trace w) < length (trace w') \<and>
             last (trace w') = Call (Update (OPVC p)) None \<and>
             pvcs w' (Namespace originalPVC, Name originalPVC) = Some p \<and> populatedOnly p)))"
  unfolding finalizePopulation_def client_defs Let_def
  apply (intro post_rules0 post_mono [OF transferVolume_runs])
  apply auto
  done

lemma createPopulationJob_runs:
  "post (createPopulationJob flt pvc populator w) (\<lambda>res w'.
     \<exists>es. trace w' = trace w @ es \<and> createdClaims es = [])"
  unfolding createPopulationJob_def client_defs Let_def
  by (intro post_rules0; simp)

lemma populatePrime_runs:
  "post (populatePrime flt pvc primePVC populator w) (\<lambda>res w'.
     \<exists>es. trace w' = trace w @ es \<and> createdClaims es = [])"
  unfolding populatePrime_def client_defs Let_def
  apply (intro post_rules0 post_mono [OF finalizePopulation_runs]
           post_seq_spec [OF createPopulationJob_runs])
  apply auto
  done

lemma clearClaimRef_conflicts:
  assumes reads: "\<And>h. flt h (Get KPV ('''', vol)) = None"
    and conflicts: "\<And>h v. flt h (Update (OPV v)) = Some Conflict"
    and stored: "pvs w ('''', vol) = Some pv"
  shows "clearClaimRef flt vol 0 w =
           (Some Conflict,
            w\<lparr>trace := trace w @
               [Call (Get KPV ('''', vol)) None,
                Call (Update (OPV (pv\<lparr>ClaimRef := None\<rparr>))) (Some Conflict),
                Sleep (100 * Millisecond),
                Call (Get KPV ('''', vol)) None,
                Call (Update (OPV (pv\<lparr>ClaimRef := None\<rparr>))) (Some Conflict),
                Sleep (200 * Millisecond),
                Call (Get KPV ('''', vol)) None,
                Call (Update (OPV (pv\<lparr>ClaimRef := None\<rparr>))) (Some Conflict)]\<rparr>)"
  by (simp add: clearClaimRef.simps [of flt vol 0] clearClaimRef.simps [of flt vol "Suc 0"]
        clearClaimRef.simps [of flt vol "Suc (Suc 0)"] clearClaimRef.simps [of flt vol 2]
        eval_defs assms)

lemma markPopulated_conflicts:
  assumes reads: "\<And>h. flt h (Get KPVC k) = None"
    and conflicts: "\<And>h v. flt h (Update (OPVC v)) = Some Conflict"
    and stored: "pvcs w k = Some p"
  shows "markPopulated flt k 0 w =
           (Some Conflict,
            w\<lparr>trace := trace w @
               [Call (Get KPVC k) None,
                Call (Update (OPVC (markedPopulated p))) (Some Conflict),
                Sleep (100 * Millisecond),
                Call (Get KPVC k) None,
                Call (Update (OPVC (markedPopulated p))) (Some Conflict),
                Sleep (200 * Millisecond),
                Call (Get KPVC k) None,
                Call (Update (OPVC (markedPopulated p))) (Some Conflict)]\<rparr>)"
  by (simp add: markPopulated.simps [of flt k 0] markPopulated.simps [of flt k "Suc 0"]
        markPopulated.simps [of flt k "Suc (Suc 0)"] markPopulated.simps [of flt k 2]
        eval_defs assms)

section \<open>The DataMover reconciler: the claims\<close>

text \<open>
  The phase that \<^verbatim>\<open>waitForJobCompletion\<close> writes, for every answer of the read of the job: a
  job with a success advances the request; a job without success and with any failed pod
  fails it. The test on the retry budget does not appear: it only chooses the log line.
\<close>

lemma waitForJobCompletion_writes:
  "post (waitForJobCompletion flt dm w) (\<lambda>res w'.
     phaseWrites (drop (length (trace w)) (trace w')) =
       (case fst (getJob flt (Namespace dm, ''verify-'' @ RestoredPVCName dm) w) of
          Inl e \<Rightarrow> []
        | Inr job \<Rightarrow>
            if 0 < sint (Succeeded job)
            then [(key_of dm, if DeletePvcAfterBackup dm then PhaseCleaningUp else PhaseCompleted)]
            else if 0 < sint (Failed job) then [(key_of dm, PhaseFailed)] else []))"
  unfolding waitForJobCompletion_def client_defs Let_def
  by (intro post_rules; simp add: logError_def getJob_def api_read_def)

text \<open>
  \<^bold>\<open>Claim C1.\<close> In the \<^verbatim>\<open>CreatingPod\<close> wait step a job with at least one success advances the
  phase, and the phase becomes \<^verbatim>\<open>Failed\<close> only when the job's failed count exceeds its retry
  budget of 3 attempts. The code does not keep the second half: \<^verbatim>\<open>waitForJobCompletion\<close>
  writes \<^verbatim>\<open>Failed\<close> as soon as one pod has failed. On the example below the job was created
  with \<^verbatim>\<open>backoffLimit\<close> 2, has one failed pod and no success, so the budget is not reached;
  the reconciler logs the line of its \<^verbatim>\<open>else\<close> branch, writes the phase \<^verbatim>\<open>Failed\<close> and
  returns without requeueing.
\<close>

theorem waitForJobCompletion_fails_on_first_failure:
  "BackoffLimit (exJob 0 1) = Some 2 \<and> sint (Failed (exJob 0 1)) = 1 \<and>
   \<not> reachedBackoffLimit (exJob 0 1) \<and>
   jobs firstFailureWorld (''default'', ''verify-data-cloned-7'') = Some (exJob 0 1) \<and>
   fst (Reconcile no_faults (''default'', ''backup'') firstFailureWorld) = Inr Result0 \<and>
   emitted firstFailureWorld (Reconcile no_faults (''default'', ''backup'') firstFailureWorld) =
     [Call (Get KDataMover (''default'', ''backup'')) None,
      Call (Get KJob (''default'', ''verify-data-cloned-7'')) None,
      LogError msgFailed,
      Call (StatusUpdate ((exMover ''backup'' PhaseCreatingPod ''data-cloned-7'')
                             \<lparr>Phase := PhaseFailed\<rparr>)) None] \<and>
   map_option Phase
     (datamovers (snd (Reconcile no_faults (''default'', ''backup'') firstFailureWorld))
        (''default'', ''backup'')) = Some PhaseFailed"
  by (simp add: Reconcile_def step_defs eval_defs emitted_def firstFailureWorld_def exWorld_def
        exMover_def exJob_def verificationJob_def reachedBackoffLimit_def)

text \<open>
  The phase writes of one invocation of \<^verbatim>\<open>Reconcile\<close>, path by path: on a stored request,
  and on a request that is not stored.
\<close>

lemma Reconcile_phase_writes:
  assumes "datamovers w req = Some dm"
  shows "post (Reconcile flt req w) (\<lambda>res w'.
           phaseWrites (drop (length (trace w)) (trace w')) = [] \<or>
           (\<exists>q. phaseWrites (drop (length (trace w)) (trace w')) = [(key_of dm, q)] \<and>
                phaseEdge (Phase dm) q))"
  unfolding Reconcile_def step_defs client_defs Let_def
  by (intro post_rules post_seq; insert assms;
      simp add: phaseEdge_def logError_def answer_simps)

lemma Reconcile_unstored_writes:
  assumes "datamovers w req = None"
  shows "post (Reconcile flt req w) (\<lambda>res w'.
           phaseWrites (drop (length (trace w)) (trace w')) = [])"
  unfolding Reconcile_def client_defs Let_def
  by (intro post_rules post_seq; insert assms; simp add: answer_simps)

text \<open>
  \<^bold>\<open>Claim C2.\<close> Every phase write of the DataMover reconciler is an edge of the phase table:
  one invocation writes no phase when the request is not stored, and on a stored request
  it writes at most one phase, to that request, and the phase written is a successor in
  the table of the phase the request had. This holds whatever the client answers.
\<close>

theorem phase_writes_follow_table:
  "(case datamovers w req of
      None \<Rightarrow> phaseWrites (emitted w (Reconcile flt req w)) = []
    | Some dm \<Rightarrow>
        phaseWrites (emitted w (Reconcile flt req w)) = [] \<or>
        (\<exists>q. phaseWrites (emitted w (Reconcile flt req w)) = [(key_of dm, q)] \<and>
             phaseEdge (Phase dm) q))"
proof (cases "datamovers w req")
  case None
  with Reconcile_unstored_writes [of w req flt] show ?thesis
    by (simp add: post_def emitted_def)
next
  case (Some dm)
  with Reconcile_phase_writes [of w req dm flt] show ?thesis
    by (simp add: post_def emitted_def)
qed

theorem phase_writes_follow_table_witness:
  "datamovers firstFailureWorld (''default'', ''backup'') =
     Some (exMover ''backup'' PhaseCreatingPod ''data-cloned-7'') \<and>
   (phaseWrites (emitted firstFailureWorld
        (Reconcile no_faults (''default'', ''backup'') firstFailureWorld)) = [] \<or>
    (\<exists>q. phaseWrites (emitted firstFailureWorld
             (Reconcile no_faults (''default'', ''backup'') firstFailureWorld)) =
             [(key_of (exMover ''backup'' PhaseCreatingPod ''data-cloned-7''), q)] \<and>
          phaseEdge (Phase (exMover ''backup'' PhaseCreatingPod ''data-cloned-7'')) q))"
proof -
  have stored: "datamovers firstFailureWorld (''default'', ''backup'') =
      Some (exMover ''backup'' PhaseCreatingPod ''data-cloned-7'')"
    by (simp add: firstFailureWorld_def exWorld_def exMover_def)
  from phase_writes_follow_table
         [where w = firstFailureWorld and req = "(''default'', ''backup'')" and flt = no_faults]
  have "phaseWrites (emitted firstFailureWorld
        (Reconcile no_faults (''default'', ''backup'') firstFailureWorld)) = [] \<or>
    (\<exists>q. phaseWrites (emitted firstFailureWorld
             (Reconcile no_faults (''default'', ''backup'') firstFailureWorld)) =
             [(key_of (exMover ''backup'' PhaseCreatingPod ''data-cloned-7''), q)] \<and>
          phaseEdge (Phase (exMover ''backup'' PhaseCreatingPod ''data-cloned-7'')) q)"
    unfolding stored by simp
  with stored show ?thesis
    by (rule conjI)
qed









text \<open>
  What one run of \<^verbatim>\<open>cleanupClonedPVC\<close> logs, by the three cases of the step, and what a
  run that returns without error has stored.
\<close>

lemma cleanupClonedPVC_runs:
  "post (cleanupClonedPVC flt dm w) (\<lambda>res w'.
     (RestoredPVCName dm = '''' \<longrightarrow>
        (\<exists>r. drop (length (trace w)) (trace w') =
               [Call (StatusUpdate (dm\<lparr>Phase := PhaseCompleted\<rparr>)) r])) \<and>
     (RestoredPVCName dm \<noteq> '''' \<and>
      fst (getPVC flt (Namespace dm, RestoredPVCName dm) w) = Inl NotFound \<longrightarrow>
        (\<exists>r. drop (length (trace w)) (trace w') =
               [Call (Get KPVC (Namespace dm, RestoredPVCName dm)) (Some NotFound),
                Call (StatusUpdate (dm\<lparr>Phase := PhaseCompleted\<rparr>)) r])) \<and>
     (\<forall>pvc. RestoredPVCName dm \<noteq> '''' \<and>
            fst (getPVC flt (Namespace dm, RestoredPVCName dm) w) = Inr pvc \<longrightarrow>
        (\<exists>d r. drop (length (trace w)) (trace w') =
               [Call (Get KPVC (Namespace dm, RestoredPVCName dm)) None,
                Call (Delete KPVC (key_of pvc) None) d,
                Call (StatusUpdate
                  (dm\<lparr>Phase := (if d = None then PhaseCompleted else PhaseFailed)\<rparr>)) r])) \<and>
     (\<forall>r0. res = Inr r0 \<longrightarrow> r0 = Result0 \<and>
        (\<exists>q. phaseWrites (drop (length (trace w)) (trace w')) = [(key_of dm, q)] \<and>
             map_option Phase (datamovers w' (key_of dm)) = Some q)))"
  unfolding cleanupClonedPVC_def client_defs Let_def
  by (intro post_rules; auto simp add: store_defs answer_simps api_read_def Let_def)

text \<open>
  \<^bold>\<open>Claim C4.\<close> In the \<^verbatim>\<open>CleaningUp\<close> step: with no clone name in the status the only call is
  the status update to \<^verbatim>\<open>Completed\<close>, so no delete is attempted; when the read of the clone
  answers \<^verbatim>\<open>NotFound\<close> the phase written is \<^verbatim>\<open>Completed\<close>; when the clone is read, it is
  deleted, and the phase written is \<^verbatim>\<open>Failed\<close> when the delete is refused and \<^verbatim>\<open>Completed\<close>
  when it is accepted. A run that returns without error returns the empty result and has
  stored the phase it wrote.
\<close>

theorem cleanupClonedPVC_outcomes:
  "(RestoredPVCName dm = '''' \<longrightarrow>
      (\<exists>r. emitted w (cleanupClonedPVC flt dm w) =
             [Call (StatusUpdate (dm\<lparr>Phase := PhaseCompleted\<rparr>)) r])) \<and>
   (RestoredPVCName dm \<noteq> '''' \<and>
    fst (getPVC flt (Namespace dm, RestoredPVCName dm) w) = Inl NotFound \<longrightarrow>
      (\<exists>r. emitted w (cleanupClonedPVC flt dm w) =
             [Call (Get KPVC (Namespace dm, RestoredPVCName dm)) (Some NotFound),
              Call (StatusUpdate (dm\<lparr>Phase := PhaseCompleted\<rparr>)) r])) \<and>
   (\<forall>pvc. RestoredPVCName dm \<noteq> '''' \<and>
          fst (getPVC flt (Namespace dm, RestoredPVCName dm) w) = Inr pvc \<longrightarrow>
      (\<exists>d r. emitted w (cleanupClonedPVC flt dm w) =
             [Call (Get KPVC (Namespace dm, RestoredPVCName dm)) None,
              Call (Delete KPVC (key_of pvc) None) d,
              Call (StatusUpdate
                (dm\<lparr>Phase := (if d = None then PhaseCompleted else PhaseFailed)\<rparr>)) r])) \<and>
   (\<forall>r0. fst (cleanupClonedPVC flt dm w) = Inr r0 \<longrightarrow> r0 = Result0 \<and>
      (\<exists>q. phaseWrites (emitted w (cleanupClonedPVC flt dm w)) = [(key_of dm, q)] \<and>
           map_option Phase (datamovers (snd (cleanupClonedPVC flt dm w)) (key_of dm)) = Some q))"
  using cleanupClonedPVC_runs [of flt dm w] unfolding post_def emitted_def by simp

theorem cleanupClonedPVC_outcomes_witness:
  "RestoredPVCName (exMover ''backup'' PhaseCleaningUp '''') = '''' \<and>
   (\<exists>r. emitted (cleaningWorld '''' Map.empty)
          (cleanupClonedPVC no_faults (exMover ''backup'' PhaseCleaningUp '''')
             (cleaningWorld '''' Map.empty)) =
        [Call (StatusUpdate
           ((exMover ''backup'' PhaseCleaningUp '''')\<lparr>Phase := PhaseCompleted\<rparr>)) r]) \<and>
   RestoredPVCName (exMover ''backup'' PhaseCleaningUp ''data-cloned-7'') \<noteq> '''' \<and>
   fst (getPVC no_faults (''default'', ''data-cloned-7'')
          (cleaningWorld ''data-cloned-7'' Map.empty)) = Inl NotFound \<and>
   (\<exists>r. emitted (cleaningWorld ''data-cloned-7'' Map.empty)
          (cleanupClonedPVC no_faults (exMover ''backup'' PhaseCleaningUp ''data-cloned-7'')
             (cleaningWorld ''data-cloned-7'' Map.empty)) =
        [Call (Get KPVC (''default'', ''data-cloned-7'')) (Some NotFound),
         Call (StatusUpdate
           ((exMover ''backup'' PhaseCleaningUp ''data-cloned-7'')\<lparr>Phase := PhaseCompleted\<rparr>)) r]) \<and>
   fst (getPVC failDeletes (''default'', ''data-cloned-7'')
          (cleaningWorld ''data-cloned-7'' [(''default'', ''data-cloned-7'') \<mapsto> exClone])) =
     Inr exClone \<and>
   (\<exists>d r. emitted (cleaningWorld ''data-cloned-7'' [(''default'', ''data-cloned-7'') \<mapsto> exClone])
          (cleanupClonedPVC failDeletes (exMover ''backup'' PhaseCleaningUp ''data-cloned-7'')
             (cleaningWorld ''data-cloned-7'' [(''default'', ''data-cloned-7'') \<mapsto> exClone])) =
        [Call (Get KPVC (''default'', ''data-cloned-7'')) None,
         Call (Delete KPVC (key_of exClone) None) d,
         Call (StatusUpdate
           ((exMover ''backup'' PhaseCleaningUp ''data-cloned-7'')
              \<lparr>Phase := (if d = None then PhaseCompleted else PhaseFailed)\<rparr>)) r]) \<and>
   fst (cleanupClonedPVC failDeletes (exMover ''backup'' PhaseCleaningUp ''data-cloned-7'')
          (cleaningWorld ''data-cloned-7'' [(''default'', ''data-cloned-7'') \<mapsto> exClone])) =
     Inr Result0 \<and>
   map_option Phase
     (datamovers
        (snd (cleanupClonedPVC failDeletes (exMover ''backup'' PhaseCleaningUp ''data-cloned-7'')
           (cleaningWorld ''data-cloned-7'' [(''default'', ''data-cloned-7'') \<mapsto> exClone])))
        (''default'', ''backup'')) = Some PhaseFailed"
proof -
  let ?unnamed = "exMover ''backup'' PhaseCleaningUp ''''"
  let ?dm = "exMover ''backup'' PhaseCleaningUp ''data-cloned-7''"
  let ?wa = "cleaningWorld '''' Map.empty"
  let ?wb = "cleaningWorld ''data-cloned-7'' Map.empty"
  let ?wc = "cleaningWorld ''data-cloned-7'' [(''default'', ''data-cloned-7'') \<mapsto> exClone]"
  have unnamed: "RestoredPVCName ?unnamed = ''''" and named: "RestoredPVCName ?dm \<noteq> ''''"
    and ns: "Namespace ?dm = ''default''" and clone: "RestoredPVCName ?dm = ''data-cloned-7''"
    by (simp_all add: exMover_def)
  have absent: "fst (getPVC no_faults (''default'', ''data-cloned-7'') ?wb) = Inl NotFound"
    by (simp add: read_answer_def cleaningWorld_def exWorld_def)
  have found: "fst (getPVC failDeletes (''default'', ''data-cloned-7'') ?wc) = Inr exClone"
    by (simp add: read_answer_def cleaningWorld_def exWorld_def failDeletes_def)
  have failed: "fst (cleanupClonedPVC failDeletes ?dm ?wc) = Inr Result0 \<and>
      map_option Phase (datamovers (snd (cleanupClonedPVC failDeletes ?dm ?wc))
        (''default'', ''backup'')) = Some PhaseFailed"
    by (simp add: cleanupClonedPVC_def eval_defs cleaningWorld_def exWorld_def exMover_def
          failDeletes_def exClone_def clonedClaim_def)
  from cleanupClonedPVC_outcomes [of ?unnamed ?wa no_faults] unnamed
  have first: "\<exists>r. emitted ?wa (cleanupClonedPVC no_faults ?unnamed ?wa) =
      [Call (StatusUpdate (?unnamed\<lparr>Phase := PhaseCompleted\<rparr>)) r]"
    by blast
  from cleanupClonedPVC_outcomes [of ?dm ?wb no_faults] named absent ns clone
  have second: "\<exists>r. emitted ?wb (cleanupClonedPVC no_faults ?dm ?wb) =
      [Call (Get KPVC (''default'', ''data-cloned-7'')) (Some NotFound),
       Call (StatusUpdate (?dm\<lparr>Phase := PhaseCompleted\<rparr>)) r]"
    by simp
  from cleanupClonedPVC_outcomes [of ?dm ?wc failDeletes] named found ns clone
  have third: "\<exists>d r. emitted ?wc (cleanupClonedPVC failDeletes ?dm ?wc) =
      [Call (Get KPVC (''default'', ''data-cloned-7'')) None,
       Call (Delete KPVC (key_of exClone) None) d,
       Call (StatusUpdate (?dm\<lparr>Phase := (if d = None then PhaseCompleted else PhaseFailed)\<rparr>)) r]"
    by simp
  from unnamed first named absent second found third failed show ?thesis
    by blast
qed

section \<open>Terminal phases\<close>

lemma Reconcile_terminal:
  assumes "datamovers w req = Some dm" and "Phase dm = PhaseCompleted \<or> Phase dm = PhaseFailed"
  shows "post (Reconcile flt req w) (\<lambda>res w'.
           filter mutating (drop (length (trace w)) (trace w')) = [] \<and> cluster w' = cluster w)"
  unfolding Reconcile_def client_defs Let_def
  by (intro post_rules post_seq; insert assms; auto simp add: cluster_def post_def answer_simps)

text \<open>
  \<^bold>\<open>Claim C9.\<close> Once the phase of a request is \<^verbatim>\<open>Completed\<close> or \<^verbatim>\<open>Failed\<close>, an invocation
  mutates nothing and returns without requeueing an action. The first half holds (it is
  part of the theorem of claim C7). The second half fails in the \<^verbatim>\<open>Failed\<close> branch of
  \<^verbatim>\<open>Reconcile\<close>, which slices every key of \<^verbatim>\<open>PhaseStart\<close> to the length of the request's
  name: with a key shorter than that name in the table, left there by another request, the
  slice is out of range and the invocation panics instead of returning \<^verbatim>\<open>ctrl.Result{}\<close> and
  no error.
\<close>

theorem failed_request_panics:
  "datamovers failedWorld (''default'', ''backup-of-everything'') =
     Some (exMover ''backup-of-everything'' PhaseFailed ''data-cloned-7'') \<and>
   PhaseStart failedWorld = [(''default/a-CreatingPod'', 3)] \<and>
   nsString (''default'', ''backup-of-everything'') = ''default/backup-of-everything'' \<and>
   fst (Reconcile no_faults (''default'', ''backup-of-everything'') failedWorld) =
     Inl SliceBoundsPanic"
  by (simp add: Reconcile_def eval_defs failedWorld_def exWorld_def exMover_def nsString_def)

section \<open>The DataMoverPopulator reconciler: the claims\<close>

text \<open>
  \<^bold>\<open>Claim C5.\<close> The loop of the hand-off that clears the claim reference of the volume makes
  at most 3 update attempts whatever the client answers. When every read of the volume
  succeeds and every update of it meets a version conflict, the loop makes exactly 3
  attempts, sleeps 100 ms after the first and 200 ms after the second, and returns the
  conflict after the third without a further sleep or attempt. The same holds of the loop
  that writes the final annotations of the target claim.
\<close>

theorem handoff_retries_bounded:
  "length (updateAttempts (emitted w (clearClaimRef flt vol 0 w))) \<le> 3 \<and>
   length (updateAttempts (emitted w (markPopulated flt k 0 w))) \<le> 3 \<and>
   ((\<forall>h. flt h (Get KPV ('''', vol)) = None) \<and>
    (\<forall>h v. flt h (Update (OPV v)) = Some Conflict) \<and> pvs w ('''', vol) = Some pv \<longrightarrow>
      clearClaimRef flt vol 0 w =
        (Some Conflict,
         w\<lparr>trace := trace w @
            [Call (Get KPV ('''', vol)) None,
             Call (Update (OPV (pv\<lparr>ClaimRef := None\<rparr>))) (Some Conflict),
             Sleep (100 * Millisecond),
             Call (Get KPV ('''', vol)) None,
             Call (Update (OPV (pv\<lparr>ClaimRef := None\<rparr>))) (Some Conflict),
             Sleep (200 * Millisecond),
             Call (Get KPV ('''', vol)) None,
             Call (Update (OPV (pv\<lparr>ClaimRef := None\<rparr>))) (Some Conflict)]\<rparr>)) \<and>
   ((\<forall>h. flt h (Get KPVC k) = None) \<and>
    (\<forall>h v. flt h (Update (OPVC v)) = Some Conflict) \<and> pvcs w k = Some p \<longrightarrow>
      markPopulated flt k 0 w =
        (Some Conflict,
         w\<lparr>trace := trace w @
            [Call (Get KPVC k) None,
             Call (Update (OPVC (markedPopulated p))) (Some Conflict),
             Sleep (100 * Millisecond),
             Call (Get KPVC k) None,
             Call (Update (OPVC (markedPopulated p))) (Some Conflict),
             Sleep (200 * Millisecond),
             Call (Get KPVC k) None,
             Call (Update (OPVC (markedPopulated p))) (Some Conflict)]\<rparr>))"
proof (intro conjI impI)
  from clearClaimRef_runs [of flt vol 0 w]
  show "length (updateAttempts (emitted w (clearClaimRef flt vol 0 w))) \<le> 3"
    by (auto simp add: post_def emitted_def)
  from markPopulated_runs [of flt k 0 w]
  show "length (updateAttempts (emitted w (markPopulated flt k 0 w))) \<le> 3"
    by (auto simp add: post_def emitted_def)
qed (simp_all add: clearClaimRef_conflicts markPopulated_conflicts)

text \<open>
  The two loops inside the hand-off, on the example cluster: with every update of the volume
  in conflict, and with every marking update of the claim in conflict, \<^verbatim>\<open>finalizePopulation\<close>
  returns the conflict after three attempts.
\<close>

lemma handoff_returns_volume_conflict:
  "fst (finalizePopulation conflictVolumeUpdates handoffTarget exPrime exPopulator handoffWorld) =
     Inl (ApiError Conflict) \<and>
   updateAttempts (drop 6 (emitted handoffWorld
      (finalizePopulation conflictVolumeUpdates handoffTarget exPrime exPopulator handoffWorld))) =
     [OPV (exVolume\<lparr>ClaimRef := None\<rparr>), OPV (exVolume\<lparr>ClaimRef := None\<rparr>),
      OPV (exVolume\<lparr>ClaimRef := None\<rparr>)]"
  by (simp add: finalizePopulation_def transferVolume_def eval_defs emitted_def
        clearClaimRef.simps [of _ _ 0] clearClaimRef.simps [of _ _ "Suc 0"]
        clearClaimRef.simps [of _ _ "Suc (Suc 0)"] clearClaimRef.simps [of _ _ 2]
        handoffWorld_def handoffTarget_def popWorld_def exTarget_def exPrime_def primeClaim_def
        exPopulator_def exVolume_def annotationsOf_def conflictVolumeUpdates_def)

lemma handoff_returns_marking_conflict:
  "fst (finalizePopulation conflictMarking handoffTarget exPrime exPopulator handoffWorld) =
     Inl (ApiError Conflict) \<and>
   length (updateAttempts (drop 8 (emitted handoffWorld
      (finalizePopulation conflictMarking handoffTarget exPrime exPopulator handoffWorld)))) = 3"
  by (simp add: finalizePopulation_def transferVolume_def eval_defs emitted_def
        clearClaimRef.simps [of _ _ 0] clearClaimRef.simps [of _ _ "Suc 0"]
        clearClaimRef.simps [of _ _ "Suc (Suc 0)"] clearClaimRef.simps [of _ _ 2]
        markPopulated.simps [of _ _ 0] markPopulated.simps [of _ _ "Suc 0"]
        markPopulated.simps [of _ _ "Suc (Suc 0)"] markPopulated.simps [of _ _ 2]
        handoffWorld_def handoffTarget_def popWorld_def exTarget_def exPrime_def primeClaim_def
        exPopulator_def exVolume_def annotationsOf_def conflictMarking_def annTrue_def
        markedPopulated_def)

theorem handoff_retries_bounded_witness:
  "(\<forall>h. conflictUpdates h (Get KPV ('''', ''pv-1'')) = None) \<and>
   (\<forall>h v. conflictUpdates h (Update (OPV v)) = Some Conflict) \<and>
   pvs handoffWorld ('''', ''pv-1'') = Some exVolume \<and>
   clearClaimRef conflictUpdates ''pv-1'' 0 handoffWorld =
     (Some Conflict,
      handoffWorld\<lparr>trace := trace handoffWorld @
         [Call (Get KPV ('''', ''pv-1'')) None,
          Call (Update (OPV (exVolume\<lparr>ClaimRef := None\<rparr>))) (Some Conflict),
          Sleep (100 * Millisecond),
          Call (Get KPV ('''', ''pv-1'')) None,
          Call (Update (OPV (exVolume\<lparr>ClaimRef := None\<rparr>))) (Some Conflict),
          Sleep (200 * Millisecond),
          Call (Get KPV ('''', ''pv-1'')) None,
          Call (Update (OPV (exVolume\<lparr>ClaimRef := None\<rparr>))) (Some Conflict)]\<rparr>) \<and>
   (\<forall>h. conflictUpdates h (Get KPVC (''default'', ''restore'')) = None) \<and>
   (\<forall>h v. conflictUpdates h (Update (OPVC v)) = Some Conflict) \<and>
   pvcs handoffWorld (''default'', ''restore'') = Some handoffTarget \<and>
   markPopulated conflictUpdates (''default'', ''restore'') 0 handoffWorld =
     (Some Conflict,
      handoffWorld\<lparr>trace := trace handoffWorld @
         [Call (Get KPVC (''default'', ''restore'')) None,
          Call (Update (OPVC (markedPopulated handoffTarget))) (Some Conflict),
          Sleep (100 * Millisecond),
          Call (Get KPVC (''default'', ''restore'')) None,
          Call (Update (OPVC (markedPopulated handoffTarget))) (Some Conflict),
          Sleep (200 * Millisecond),
          Call (Get KPVC (''default'', ''restore'')) None,
          Call (Update (OPVC (markedPopulated handoffTarget))) (Some Conflict)]\<rparr>) \<and>
   fst (finalizePopulation conflictVolumeUpdates handoffTarget exPrime exPopulator handoffWorld) =
     Inl (ApiError Conflict) \<and>
   fst (finalizePopulation conflictMarking handoffTarget exPrime exPopulator handoffWorld) =
     Inl (ApiError Conflict)"
proof -
  have reads: "\<forall>h. conflictUpdates h (Get KPV ('''', ''pv-1'')) = None"
    and conflicts: "\<forall>h v. conflictUpdates h (Update (OPV v)) = Some Conflict"
    and reads': "\<forall>h. conflictUpdates h (Get KPVC (''default'', ''restore'')) = None"
    and conflicts': "\<forall>h v. conflictUpdates h (Update (OPVC v)) = Some Conflict"
    by (simp_all add: conflictUpdates_def)
  have volume: "pvs handoffWorld ('''', ''pv-1'') = Some exVolume"
    and target: "pvcs handoffWorld (''default'', ''restore'') = Some handoffTarget"
    by (simp_all add: handoffWorld_def popWorld_def)
  note loops =
    handoff_retries_bounded [of handoffWorld conflictUpdates "''pv-1''" "(''default'', ''restore'')"
      exVolume handoffTarget]
  from loops reads conflicts volume
  have first: "clearClaimRef conflictUpdates ''pv-1'' 0 handoffWorld =
     (Some Conflict,
      handoffWorld\<lparr>trace := trace handoffWorld @
         [Call (Get KPV ('''', ''pv-1'')) None,
          Call (Update (OPV (exVolume\<lparr>ClaimRef := None\<rparr>))) (Some Conflict),
          Sleep (100 * Millisecond),
          Call (Get KPV ('''', ''pv-1'')) None,
          Call (Update (OPV (exVolume\<lparr>ClaimRef := None\<rparr>))) (Some Conflict),
          Sleep (200 * Millisecond),
          Call (Get KPV ('''', ''pv-1'')) None,
          Call (Update (OPV (exVolume\<lparr>ClaimRef := None\<rparr>))) (Some Conflict)]\<rparr>)"
    by blast
  from loops reads' conflicts' target
  have second: "markPopulated conflictUpdates (''default'', ''restore'') 0 handoffWorld =
     (Some Conflict,
      handoffWorld\<lparr>trace := trace handoffWorld @
         [Call (Get KPVC (''default'', ''restore'')) None,
          Call (Update (OPVC (markedPopulated handoffTarget))) (Some Conflict),
          Sleep (100 * Millisecond),
          Call (Get KPVC (''default'', ''restore'')) None,
          Call (Update (OPVC (markedPopulated handoffTarget))) (Some Conflict),
          Sleep (200 * Millisecond),
          Call (Get KPVC (''default'', ''restore'')) None,
          Call (Update (OPVC (markedPopulated handoffTarget))) (Some Conflict)]\<rparr>)"
    by blast
  from reads conflicts volume first reads' conflicts' target second
    conjunct1 [OF handoff_returns_volume_conflict] conjunct1 [OF handoff_returns_marking_conflict]
  show ?thesis
    by (intro conjI)
qed

text \<open>
  \<^bold>\<open>Claim C6.\<close> The annotation \<^verbatim>\<open>populated\<close> is the last one written to the target claim.
  \<^verbatim>\<open>finalizePopulation\<close> returns a requeue after 5 seconds only at the end of the hand-off; when
  it does, in a store that keeps every claim under its own name, the last call of the run is
  an accepted update of a claim \<open>p\<close> that is now the stored target claim, and \<open>p\<close> has
  \<^verbatim>\<open>populated\<close> set to \<^verbatim>\<open>true\<close> and neither \<^verbatim>\<open>populating\<close> nor \<^verbatim>\<open>cleanup-in-progress\<close>.
\<close>

theorem populated_is_written_last:
  assumes "claimsNamed (pvcs w)"
    and "fst (finalizePopulation flt originalPVC primePVC populator w) =
           Inr \<lparr>Requeue = False, RequeueAfter = 5 * Second\<rparr>"
  shows "\<exists>p. emitted w (finalizePopulation flt originalPVC primePVC populator w) \<noteq> [] \<and>
             last (emitted w (finalizePopulation flt originalPVC primePVC populator w)) =
               Call (Update (OPVC p)) None \<and>
             pvcs (snd (finalizePopulation flt originalPVC primePVC populator w))
               (Namespace originalPVC, Name originalPVC) = Some p \<and>
             Annotations p \<noteq> None \<and>
             annotationsOf p annPopulated = Some ''true'' \<and>
             annotationsOf p annPopulating = None \<and>
             annotationsOf p annCleanup = None"
proof -
  let ?w' = "snd (finalizePopulation flt originalPVC primePVC populator w)"
  from finalizePopulation_runs [of flt originalPVC primePVC populator w] assms
  obtain p where longer: "length (trace w) < length (trace ?w')"
    and last: "last (trace ?w') = Call (Update (OPVC p)) None"
    and stored: "pvcs ?w' (Namespace originalPVC, Name originalPVC) = Some p"
    and marked: "populatedOnly p"
    by (auto simp add: post_def)
  from longer last
  have "emitted w (finalizePopulation flt originalPVC primePVC populator w) \<noteq> []"
    and "last (emitted w (finalizePopulation flt originalPVC primePVC populator w)) =
           Call (Update (OPVC p)) None"
    by (simp_all add: emitted_def last_drop)
  moreover from marked have "Annotations p \<noteq> None \<and> annotationsOf p annPopulated = Some ''true'' \<and>
      annotationsOf p annPopulating = None \<and> annotationsOf p annCleanup = None"
    by (simp add: populatedOnly_def annotationsOf_def split: option.splits)
  ultimately show ?thesis
    using stored by blast
qed

lemma claimsNamed_handoffWorld: "claimsNamed (pvcs handoffWorld)"
  by (auto simp add: claimsNamed_def handoffWorld_def popWorld_def key_of_def handoffTarget_def
        exTarget_def exPrime_def primeClaim_def split: if_splits)

lemma handoff_completes:
  "fst (finalizePopulation no_faults handoffTarget exPrime exPopulator handoffWorld) =
     Inr \<lparr>Requeue = False, RequeueAfter = 5 * Second\<rparr>"
  by (simp add: finalizePopulation_def transferVolume_def eval_defs
        clearClaimRef.simps [of _ _ 0] markPopulated.simps [of _ _ 0]
        handoffWorld_def handoffTarget_def popWorld_def exTarget_def exPrime_def primeClaim_def
        exPopulator_def exVolume_def annotationsOf_def markedPopulated_def)

theorem populated_is_written_last_witness:
  "claimsNamed (pvcs handoffWorld) \<and>
   fst (finalizePopulation no_faults handoffTarget exPrime exPopulator handoffWorld) =
     Inr \<lparr>Requeue = False, RequeueAfter = 5 * Second\<rparr> \<and>
   (\<exists>p. emitted handoffWorld
          (finalizePopulation no_faults handoffTarget exPrime exPopulator handoffWorld) \<noteq> [] \<and>
        last (emitted handoffWorld
          (finalizePopulation no_faults handoffTarget exPrime exPopulator handoffWorld)) =
          Call (Update (OPVC p)) None \<and>
        pvcs (snd (finalizePopulation no_faults handoffTarget exPrime exPopulator handoffWorld))
          (Namespace handoffTarget, Name handoffTarget) = Some p \<and>
        Annotations p \<noteq> None \<and>
        annotationsOf p annPopulated = Some ''true'' \<and>
        annotationsOf p annPopulating = None \<and>
        annotationsOf p annCleanup = None)"
  using claimsNamed_handoffWorld handoff_completes
    populated_is_written_last [OF claimsNamed_handoffWorld handoff_completes]
  by (intro conjI)

text \<open>
  A target claim that is marked as populated: \<^verbatim>\<open>ensurePopulationJob\<close> returns at once, and
  the reconciler makes reads only.
\<close>

lemma ensurePopulationJob_populated:
  "annTrue pvc annPopulated \<Longrightarrow> ensurePopulationJob flt pvc populator w = (Inr Result0, w)"
  by (simp add: ensurePopulationJob_def)

lemma Reconcile_Populator_converged:
  assumes "pvcs w req = Some pvc" and "annTrue pvc annPopulated"
  shows "post (Reconcile_Populator flt req w) (\<lambda>res w'.
           filter mutating (drop (length (trace w)) (trace w')) = [] \<and> cluster w' = cluster w \<and>
           (flt = no_faults \<longrightarrow> res = Inr Result0))"
  unfolding Reconcile_Populator_def client_defs Let_def
  apply (intro post_rules)
  using assms
  apply (auto simp add: answer_simps ensurePopulationJob_populated post_def cluster_def)
  done

lemma cluster_pvcs: "cluster w' = cluster w \<Longrightarrow> pvcs w' = pvcs w"
  by (simp add: cluster_def)

lemma cluster_datamovers: "cluster w' = cluster w \<Longrightarrow> datamovers w' = datamovers w"
  by (simp add: cluster_def)

text \<open>
  \<^bold>\<open>Claim C7.\<close> Re-invoking a reconciler in a converged state changes nothing. For a target
  claim with \<^verbatim>\<open>populated\<close> set to \<^verbatim>\<open>true\<close>, an invocation of the population reconciler makes
  no mutating call and leaves the cluster as it was, whatever the client answers, returns
  the empty result when the client answers from the store, and a second invocation on the
  world it leaves mutates nothing either. The same holds of the DataMover reconciler for a
  request whose phase is \<^verbatim>\<open>Completed\<close> or \<^verbatim>\<open>Failed\<close>, return value apart.
\<close>

theorem converged_runs_mutate_nothing:
  "(pvcs w req = Some pvc \<and> annTrue pvc annPopulated \<longrightarrow>
      filter mutating (emitted w (Reconcile_Populator flt req w)) = [] \<and>
      cluster (snd (Reconcile_Populator flt req w)) = cluster w \<and>
      fst (Reconcile_Populator no_faults req w) = Inr Result0 \<and>
      filter mutating
        (emitted (snd (Reconcile_Populator flt req w))
           (Reconcile_Populator flt' req (snd (Reconcile_Populator flt req w)))) = []) \<and>
   (datamovers w req = Some dm \<and> (Phase dm = PhaseCompleted \<or> Phase dm = PhaseFailed) \<longrightarrow>
      filter mutating (emitted w (Reconcile flt req w)) = [] \<and>
      cluster (snd (Reconcile flt req w)) = cluster w \<and>
      filter mutating
        (emitted (snd (Reconcile flt req w)) (Reconcile flt' req (snd (Reconcile flt req w)))) = [])"
proof (intro conjI impI)
  assume populated: "pvcs w req = Some pvc \<and> annTrue pvc annPopulated"
  note run = Reconcile_Populator_converged [OF conjunct1 [OF populated] conjunct2 [OF populated]]
  from run [of flt] show quiet: "filter mutating (emitted w (Reconcile_Populator flt req w)) = []"
    by (simp add: post_def emitted_def)
  from run [of flt] show same: "cluster (snd (Reconcile_Populator flt req w)) = cluster w"
    by (simp add: post_def)
  from run [of no_faults] show "fst (Reconcile_Populator no_faults req w) = Inr Result0"
    by (simp add: post_def)
  from populated cluster_pvcs [OF same]
  have again: "pvcs (snd (Reconcile_Populator flt req w)) req = Some pvc"
    by simp
  from Reconcile_Populator_converged [OF again conjunct2 [OF populated], of flt']
  show "filter mutating
        (emitted (snd (Reconcile_Populator flt req w))
           (Reconcile_Populator flt' req (snd (Reconcile_Populator flt req w)))) = []"
    by (simp add: post_def emitted_def)
next
  assume terminal: "datamovers w req = Some dm \<and> (Phase dm = PhaseCompleted \<or> Phase dm = PhaseFailed)"
  note run = Reconcile_terminal [OF conjunct1 [OF terminal] conjunct2 [OF terminal]]
  from run [of flt] show "filter mutating (emitted w (Reconcile flt req w)) = []"
    by (simp add: post_def emitted_def)
  from run [of flt] show same: "cluster (snd (Reconcile flt req w)) = cluster w"
    by (simp add: post_def)
  from terminal cluster_datamovers [OF same]
  have again: "datamovers (snd (Reconcile flt req w)) req = Some dm"
    by simp
  from Reconcile_terminal [OF again conjunct2 [OF terminal], of flt']
  show "filter mutating
        (emitted (snd (Reconcile flt req w)) (Reconcile flt' req (snd (Reconcile flt req w)))) = []"
    by (simp add: post_def emitted_def)
qed

theorem converged_runs_mutate_nothing_witness:
  "pvcs populatedWorld (''default'', ''restore'') = Some populatedTarget \<and>
   annTrue populatedTarget annPopulated \<and>
   pvcs populatedWorld (''default'', ''restore-prime'') = None \<and>
   filter mutating
     (emitted populatedWorld (Reconcile_Populator no_faults (''default'', ''restore'') populatedWorld)) =
     [] \<and>
   cluster (snd (Reconcile_Populator no_faults (''default'', ''restore'') populatedWorld)) =
     cluster populatedWorld \<and>
   fst (Reconcile_Populator no_faults (''default'', ''restore'') populatedWorld) = Inr Result0 \<and>
   datamovers completedWorld (''default'', ''backup'') =
     Some (exMover ''backup'' PhaseCompleted ''data-cloned-7'') \<and>
   Phase (exMover ''backup'' PhaseCompleted ''data-cloned-7'') = PhaseCompleted \<and>
   filter mutating
     (emitted completedWorld (Reconcile no_faults (''default'', ''backup'') completedWorld)) = [] \<and>
   cluster (snd (Reconcile no_faults (''default'', ''backup'') completedWorld)) =
     cluster completedWorld"
proof -
  have stored: "pvcs populatedWorld (''default'', ''restore'') = Some populatedTarget"
    and primeless: "pvcs populatedWorld (''default'', ''restore-prime'') = None"
    by (simp_all add: populatedWorld_def popWorld_def)
  have populated: "annTrue populatedTarget annPopulated"
    by (simp add: annTrue_def populatedTarget_def exTarget_def)
  have request: "datamovers completedWorld (''default'', ''backup'') =
      Some (exMover ''backup'' PhaseCompleted ''data-cloned-7'')"
    by (simp add: completedWorld_def exWorld_def exMover_def)
  have completed: "Phase (exMover ''backup'' PhaseCompleted ''data-cloned-7'') = PhaseCompleted"
    by (simp add: exMover_def)
  note population =
    converged_runs_mutate_nothing [of populatedWorld "(''default'', ''restore'')" populatedTarget
      no_faults no_faults, THEN conjunct1, rule_format, OF conjI [OF stored populated]]
  note mover =
    converged_runs_mutate_nothing [of completedWorld "(''default'', ''backup'')" _ _ _
      "exMover ''backup'' PhaseCompleted ''data-cloned-7''", THEN conjunct2, rule_format,
      OF conjI [OF request disjI1 [OF completed]], of no_faults]
  from stored populated primeless population request completed mover show ?thesis
    by blast
qed

text \<open>
  \<^bold>\<open>Claim C10.\<close> A claim without a data source reference, or whose reference has another API
  group (or none) or another kind, is left alone by the population reconciler: the
  invocation reads the claim, makes no other call, changes nothing and returns the empty
  result with no error.
\<close>

theorem foreign_claims_are_ignored:
  assumes "pvcs w req = Some pvc" and "flt (trace w) (Get KPVC req) = None"
    and "DataSourceRef pvc = None \<or>
         (\<exists>ref. DataSourceRef pvc = Some ref \<and>
            (APIGroup ref \<noteq> Some ''datamover.a-cup-of.coffee'' \<or>
             Kind ref \<noteq> ''DataMoverPopulator''))"
  shows "Reconcile_Populator flt req w =
           (Inr Result0, w\<lparr>trace := trace w @ [Call (Get KPVC req) None]\<rparr>)"
  using assms
  by (auto simp add: Reconcile_Populator_def getPVC_def api_read_def read_answer_def Let_def
        record_call_def error_of_def)

theorem foreign_claims_are_ignored_witness:
  "pvcs foreignWorld (''default'', ''data'') = Some exSource \<and>
   no_faults (trace foreignWorld) (Get KPVC (''default'', ''data'')) = None \<and>
   DataSourceRef exSource = None \<and>
   Reconcile_Populator no_faults (''default'', ''data'') foreignWorld =
     (Inr Result0,
      foreignWorld\<lparr>trace := trace foreignWorld @ [Call (Get KPVC (''default'', ''data'')) None]\<rparr>)"
proof -
  have stored: "pvcs foreignWorld (''default'', ''data'') = Some exSource"
    by (simp add: foreignWorld_def popWorld_def)
  have read: "no_faults (trace foreignWorld) (Get KPVC (''default'', ''data'')) = None"
    by simp
  have foreign: "DataSourceRef exSource = None"
    by (simp add: exSource_def)
  from stored read foreign
    foreign_claims_are_ignored [of foreignWorld "(''default'', ''data'')" exSource no_faults,
      OF stored read disjI1 [OF foreign]]
  show ?thesis
    by (intro conjI)
qed

text \<open>
  The claims that one run of \<^verbatim>\<open>ensurePopulationJob\<close> asks the client to create: the prime
  claim, once, on the one path of the code that reaches the create call, and nothing on
  every other path.
\<close>

lemma ensurePopulationJob_creations:
  "post (ensurePopulationJob flt pvc populator w) (\<lambda>res w'.
     createdClaims (drop (length (trace w)) (trace w')) =
       (if \<not> annTrue pvc annPopulated \<and> \<not> annTrue pvc annCleanup \<and> \<not> annTrue pvc annPopulating \<and>
           fst (getPVC flt (Namespace pvc, Name pvc @ ''-prime'') w) = Inl NotFound
        then [primeClaim pvc populator] else []) \<and>
     (Call (Create (OPVC (primeClaim pvc populator))) None \<in> set (drop (length (trace w)) (trace w'))
        \<longrightarrow> pvcs w (Namespace pvc, Name pvc @ ''-prime'') = None))"
  unfolding ensurePopulationJob_def client_defs Let_def
  apply (intro post_rules post_mono [OF finalizePopulation_runs] post_mono [OF populatePrime_runs])
  apply (auto simp add: answer_simps api_read_def Let_def dest: created_in_createdClaims)
  done

text \<open>
  \<^bold>\<open>Claim C8\<close>, as stated: the prime claim is created only when the target claim carries
  neither the \<^verbatim>\<open>populating\<close> nor the \<^verbatim>\<open>cleanup-in-progress\<close> annotation. The code tests the
  value of the annotations, not their presence: the target claim below carries the
  \<^verbatim>\<open>populating\<close> annotation with the value \<^verbatim>\<open>false\<close>, and the reconciler creates its prime
  claim.
\<close>

theorem prime_created_despite_populating_annotation:
  "pvcs annotatedWorld (''default'', ''restore'') = Some annotatedTarget \<and>
   annotationsOf annotatedTarget annPopulating = Some ''false'' \<and>
   createdClaims
     (emitted annotatedWorld (Reconcile_Populator no_faults (''default'', ''restore'') annotatedWorld)) =
     [primeClaim annotatedTarget exPopulator] \<and>
   pvcs (snd (Reconcile_Populator no_faults (''default'', ''restore'') annotatedWorld))
     (''default'', ''restore-prime'') = Some (primeClaim annotatedTarget exPopulator)"
  by (simp add: Reconcile_Populator_def ensurePopulationJob_def eval_defs emitted_def
        annotatedWorld_def annotatedTarget_def popWorld_def exTarget_def exPopulator_def
        annotationsOf_def annTrue_def primeClaim_def)

text \<open>
  \<^bold>\<open>Claim C8\<close>, amended: a run of \<^verbatim>\<open>ensurePopulationJob\<close> asks for the creation of a claim
  only when none of the annotations \<^verbatim>\<open>populated\<close>, \<^verbatim>\<open>cleanup-in-progress\<close> and \<^verbatim>\<open>populating\<close>
  of the target claim is set to \<^verbatim>\<open>true\<close> and the read of the prime claim answers
  \<^verbatim>\<open>NotFound\<close>; it then asks for exactly one, the prime claim, and the creation is accepted
  only if no claim of that name is stored. The prime claim is named \<^verbatim>\<open><target>-prime\<close> in the
  namespace of the target claim, carries its access modes, resource requests and limits,
  storage class and volume mode, and has no data source.
\<close>

theorem prime_claim_creation:
  "createdClaims (emitted w (ensurePopulationJob flt pvc populator w)) =
     (if \<not> annTrue pvc annPopulated \<and> \<not> annTrue pvc annCleanup \<and> \<not> annTrue pvc annPopulating \<and>
         fst (getPVC flt (Namespace pvc, Name pvc @ ''-prime'') w) = Inl NotFound
      then [primeClaim pvc populator] else []) \<and>
   (Call (Create (OPVC (primeClaim pvc populator))) None
      \<in> set (emitted w (ensurePopulationJob flt pvc populator w))
    \<longrightarrow> pvcs w (Namespace pvc, Name pvc @ ''-prime'') = None) \<and>
   Name (primeClaim pvc populator) = Name pvc @ ''-prime'' \<and>
   Namespace (primeClaim pvc populator) = Namespace pvc \<and>
   AccessModes (primeClaim pvc populator) = AccessModes pvc \<and>
   Requests (primeClaim pvc populator) = Requests pvc \<and>
   Limits (primeClaim pvc populator) = Limits pvc \<and>
   StorageClassName (primeClaim pvc populator) = StorageClassName pvc \<and>
   VolumeMode (primeClaim pvc populator) = VolumeMode pvc \<and>
   DataSource (primeClaim pvc populator) = None \<and>
   DataSourceRef (primeClaim pvc populator) = None"
proof (intro conjI)
  from ensurePopulationJob_creations [of flt pvc populator w]
  show "createdClaims (emitted w (ensurePopulationJob flt pvc populator w)) =
     (if \<not> annTrue pvc annPopulated \<and> \<not> annTrue pvc annCleanup \<and> \<not> annTrue pvc annPopulating \<and>
         fst (getPVC flt (Namespace pvc, Name pvc @ ''-prime'') w) = Inl NotFound
      then [primeClaim pvc populator] else [])"
    unfolding post_def emitted_def by (rule conjunct1)
  from ensurePopulationJob_creations [of flt pvc populator w]
  show "Call (Create (OPVC (primeClaim pvc populator))) None
      \<in> set (emitted w (ensurePopulationJob flt pvc populator w))
    \<longrightarrow> pvcs w (Namespace pvc, Name pvc @ ''-prime'') = None"
    unfolding post_def emitted_def by (rule conjunct2)
qed (simp_all add: primeClaim_def)

theorem prime_claim_creation_witness:
  "\<not> annTrue (exTarget None) annPopulated \<and> \<not> annTrue (exTarget None) annCleanup \<and>
   \<not> annTrue (exTarget None) annPopulating \<and>
   fst (getPVC no_faults (''default'', ''restore-prime'')
          (popWorld [(''default'', ''restore'') \<mapsto> exTarget None])) = Inl NotFound \<and>
   createdClaims
     (emitted (popWorld [(''default'', ''restore'') \<mapsto> exTarget None])
        (ensurePopulationJob no_faults (exTarget None) exPopulator
           (popWorld [(''default'', ''restore'') \<mapsto> exTarget None]))) =
     [primeClaim (exTarget None) exPopulator] \<and>
   Call (Create (OPVC (primeClaim (exTarget None) exPopulator))) None
     \<in> set (emitted (popWorld [(''default'', ''restore'') \<mapsto> exTarget None])
              (ensurePopulationJob no_faults (exTarget None) exPopulator
                 (popWorld [(''default'', ''restore'') \<mapsto> exTarget None]))) \<and>
   pvcs (popWorld [(''default'', ''restore'') \<mapsto> exTarget None]) (''default'', ''restore-prime'') =
     None \<and>
   Name (primeClaim (exTarget None) exPopulator) = ''restore-prime'' \<and>
   AccessModes (primeClaim (exTarget None) exPopulator) = [''ReadWriteOnce''] \<and>
   DataSourceRef (primeClaim (exTarget None) exPopulator) = None"
proof -
  let ?pvc = "exTarget None"
  let ?w = "popWorld [(''default'', ''restore'') \<mapsto> exTarget None]"
  have fresh: "\<not> annTrue ?pvc annPopulated \<and> \<not> annTrue ?pvc annCleanup \<and>
      \<not> annTrue ?pvc annPopulating"
    by (simp add: annTrue_def exTarget_def)
  have ns: "Namespace ?pvc = ''default''" and name: "Name ?pvc = ''restore''"
    and modes: "AccessModes ?pvc = [''ReadWriteOnce'']"
    by (simp_all add: exTarget_def)
  have absent: "fst (getPVC no_faults (''default'', ''restore-prime'') ?w) = Inl NotFound"
    by (simp add: read_answer_def popWorld_def)
  have accepted: "Call (Create (OPVC (primeClaim ?pvc exPopulator))) None
      \<in> set (emitted ?w (ensurePopulationJob no_faults ?pvc exPopulator ?w))"
    by (simp add: ensurePopulationJob_def eval_defs emitted_def popWorld_def exTarget_def
          annTrue_def primeClaim_def)
  note spec = prime_claim_creation [of ?w no_faults ?pvc exPopulator]
  from spec fresh absent ns name
  have created: "createdClaims (emitted ?w (ensurePopulationJob no_faults ?pvc exPopulator ?w)) =
      [primeClaim ?pvc exPopulator]"
    by simp
  from spec accepted ns name
  have free: "pvcs ?w (''default'', ''restore-prime'') = None"
    by simp
  from spec name modes
  have fields: "Name (primeClaim ?pvc exPopulator) = ''restore-prime'' \<and>
      AccessModes (primeClaim ?pvc exPopulator) = [''ReadWriteOnce''] \<and>
      DataSourceRef (primeClaim ?pvc exPopulator) = None"
    by simp
  from fresh absent created accepted free fields show ?thesis
    by blast
qed

end
